(* ===== verification/Prelude.thy ===== *)
theory Prelude
  imports Main "HOL-Library.Sublist"
begin

text \<open>
  Shared vocabulary of the development: the proof collections the component theories
  fill, and the pieces of the JavaScript runtime that the TypeScript sources lean on
  (string truthiness and \<open>||\<close>, \<open>String.prototype.includes\<close>,
  \<open>Number.prototype.toString\<close> on integers). Each runtime helper comes with the
  lemma that ties it to a reference notion of the HOL library: \<open>includes\<close> is the
  contiguous-sublist relation of \<open>HOL-Library.Sublist\<close>, and decimal printing is
  inverted by a parser, so that it is injective.
\<close>

named_theorems js_simps "equations of the JavaScript runtime helpers"
named_theorems wasapi_simps "unfolding rules of the provider's operations"

section \<open>Definitions\<close>

subsection \<open>Truthiness and the \<open>||\<close> operator on strings\<close>

text \<open>
  A TypeScript \<open>string\<close> field read from JSON may be absent (\<open>undefined\<close> or
  \<open>null\<close>): it is a \<open>string option\<close>, \<open>None\<close> for the absent value.
  A string is falsy exactly when it is absent or empty.
\<close>

definition js_truthy_str :: "string option \<Rightarrow> bool" where
  "js_truthy_str v = (case v of None \<Rightarrow> False | Some s \<Rightarrow> s \<noteq> [])"

text \<open>\<open>v || d\<close>: the left operand when it is truthy, the right one otherwise.\<close>

fun js_or_str :: "string option \<Rightarrow> string \<Rightarrow> string" where
  "js_or_str None d = d"
| "js_or_str (Some s) d = (if s = [] then d else s)"

subsection \<open>\<open>String.prototype.includes\<close>\<close>

text \<open>
  \<open>s.includes(t)\<close> scans the positions of \<open>s\<close> for one where \<open>t\<close> starts.
  The haystack comes first, as the receiver of the method.
\<close>

fun str_includes :: "string \<Rightarrow> string \<Rightarrow> bool" where
  "str_includes [] t = (t = [])"
| "str_includes (c # s) t = (prefix t (c # s) \<or> str_includes s t)"

subsection \<open>\<open>Number.prototype.toString\<close> on integers\<close>

text \<open>
  Provider identifiers are JSON numbers with integral values; \<open>toString()\<close> prints
  them in decimal, with a leading minus sign for negative values and no leading zeros.
\<close>

definition digit_char :: "nat \<Rightarrow> char" where
  "digit_char d = ''0123456789'' ! d"

fun nat_str :: "nat \<Rightarrow> string" where
  "nat_str n =
     (if n < 10 then [digit_char n] else nat_str (n div 10) @ [digit_char (n mod 10)])"

definition int_str :: "int \<Rightarrow> string" where
  "int_str i = (if i < 0 then CHR ''-'' # nat_str (nat (- i)) else nat_str (nat i))"

text \<open>The inverse, used only in proofs: a parser for the strings \<open>int_str\<close> prints.\<close>

definition char_digit :: "char \<Rightarrow> nat option" where
  "char_digit c =
     (let k = (of_char c :: nat) in if 48 \<le> k \<and> k < 58 then Some (k - 48) else None)"

fun parse_digits :: "nat \<Rightarrow> string \<Rightarrow> nat option" where
  "parse_digits acc [] = Some acc"
| "parse_digits acc (c # cs) =
     (case char_digit c of None \<Rightarrow> None | Some d \<Rightarrow> parse_digits (10 * acc + d) cs)"

definition parse_int :: "string \<Rightarrow> int option" where
  "parse_int s =
     (if s = [] then None
      else if hd s = CHR ''-'' then
        (if tl s = [] then None else map_option (\<lambda>n. - int n) (parse_digits 0 (tl s)))
      else map_option int (parse_digits 0 s))"

text \<open>The equation of \<open>nat_str\<close> has an \<open>if\<close> on its right: it is unfolded by hand.\<close>

declare nat_str.simps [simp del]

section \<open>Lemmas\<close>

subsection \<open>Truthiness\<close>

lemma js_truthy_str_simps [simp, js_simps]:
  "js_truthy_str None = False"
  "js_truthy_str (Some s) = (s \<noteq> [])"
  by (simp_all add: js_truthy_str_def)

lemma js_or_str_empty [simp, js_simps]:
  "js_or_str v [] = (case v of None \<Rightarrow> [] | Some s \<Rightarrow> s)"
  by (cases v) simp_all

subsection \<open>\<open>includes\<close> decides the contiguous-sublist relation\<close>

lemma str_includes_sublist [js_simps]: "str_includes s t \<longleftrightarrow> sublist t s"
proof (induction s)
  case Nil
  then show ?case by simp
next
  case (Cons c s)
  have "sublist t (c # s) \<longleftrightarrow> prefix t (c # s) \<or> sublist t s"
    by (simp add: sublist_Cons_right)
  with Cons.IH show ?case by simp
qed

lemma str_includes_appendI [intro]: "str_includes (a @ t @ b) t"
  by (simp add: str_includes_sublist sublist_appendI)

lemma str_includes_append_left: "str_includes a t \<Longrightarrow> str_includes (a @ b) t"
  unfolding str_includes_sublist sublist_def by (metis append.assoc)

lemma str_includes_append_right: "str_includes b t \<Longrightarrow> str_includes (a @ b) t"
  unfolding str_includes_sublist sublist_def by (metis append.assoc)

subsection \<open>Decimal printing and its inverse\<close>

lemma char_digit_digit_char [simp]: "d < 10 \<Longrightarrow> char_digit (digit_char d) = Some d"
proof -
  assume "d < 10"
  then have "d \<in> {0, 1, 2, 3, 4, 5, 6, 7, 8, 9}" by auto
  then show ?thesis by (auto simp: char_digit_def digit_char_def)
qed

lemma char_digit_minus [simp]: "char_digit CHR ''-'' = None"
  by (simp add: char_digit_def)

lemma nat_str_nonempty [simp]: "nat_str n \<noteq> []"
  by (subst nat_str.simps) simp

lemma hd_nat_str_digit: "char_digit (hd (nat_str n)) \<noteq> None"
proof (induction n rule: nat_str.induct)
  case (1 n)
  show ?case
  proof (cases "n < 10")
    case True
    then show ?thesis by (subst nat_str.simps) simp
  next
    case False
    with "1.IH" show ?thesis
      by (subst nat_str.simps) (simp add: hd_append)
  qed
qed

lemma parse_digits_nat_str:
  "parse_digits acc (nat_str n @ ys) = parse_digits (acc * 10 ^ length (nat_str n) + n) ys"
proof (induction n arbitrary: acc ys rule: nat_str.induct)
  case (1 n)
  show ?case
  proof (cases "n < 10")
    case True
    then show ?thesis by (subst (1 2) nat_str.simps) (simp add: mult.commute)
  next
    case False
    let ?L = "length (nat_str (n div 10))"
    have eq: "nat_str n = nat_str (n div 10) @ [digit_char (n mod 10)]"
      using False by (subst nat_str.simps) simp
    from False "1.IH" [of acc "digit_char (n mod 10) # ys"] show ?thesis
      by (simp add: eq ac_simps)
  qed
qed

lemma parse_digits_nat_str_Nil: "parse_digits 0 (nat_str n) = Some n"
  using parse_digits_nat_str [of 0 n "[]"] by simp

text \<open>Round trip: the parser inverts decimal printing.\<close>

theorem parse_int_int_str [js_simps]: "parse_int (int_str i) = Some i"
proof (cases "i < 0")
  case True
  then show ?thesis
    by (simp add: int_str_def parse_int_def parse_digits_nat_str_Nil)
next
  case False
  have "hd (nat_str (nat i)) \<noteq> CHR ''-''"
    using hd_nat_str_digit [of "nat i"] by auto
  with False show ?thesis
    by (simp add: int_str_def parse_int_def parse_digits_nat_str_Nil)
qed

lemma int_str_inj: "inj int_str"
  by (rule inj_on_inverseI [where g = "\<lambda>s. the (parse_int s)"]) (simp add: parse_int_int_str)

lemma int_str_eq_iff [simp]: "int_str a = int_str b \<longleftrightarrow> a = b"
  using int_str_inj by (auto dest: injD)

lemma int_str_nonempty [simp]: "int_str i \<noteq> []"
  by (simp add: int_str_def)

text \<open>Closed instances of the printer evaluate by \<open>simp add: int_str_eval\<close>.\<close>

lemmas int_str_eval = int_str_def nat_str.simps digit_char_def

subsection \<open>Options and lists\<close>

lemma find_Some_iff_member:
  "(\<exists>x. find P xs = Some x) \<longleftrightarrow> (\<exists>x\<in>set xs. P x)"
  by (induction xs) auto

lemma find_Some_sat: "find P xs = Some x \<Longrightarrow> P x \<and> x \<in> set xs"
  by (induction xs) (auto split: if_splits)

end
