(* ===== verification/Wasapi_Types.thy ===== *)
theory Wasapi_Types
  imports Prelude "HOL-Library.Word"
begin

text \<open>
  The data of the adapter: the webhook payload type \<open>WasapiMessage\<close> of
  \<open>src/src/provider/wasapi.events.ts\<close>, the normalized event it builds, the models of
  the Wasapi SDK it calls (contacts, WhatsApp numbers, send payloads), and the
  observable effects every operation produces, in order: calls to the SDK or to HTTP,
  console lines, emitted events and file writes.

  TypeScript's annotations are not checked at run time, so a field the code reads from
  the JSON body is an \<open>option\<close> (\<open>None\<close> when it is absent); fields the code
  never reads keep their declared types.
\<close>

section \<open>The webhook payload (\<open>WasapiMessage\<close>)\<close>

record chat_status =
  conversation_status :: string
  conversation_expiration :: int

text \<open>\<open>id\<close> is \<open>msg_id\<close> and the inner \<open>data\<close> string is \<open>raw_data\<close>.\<close>

record wasapi_data =
  user_id :: int
  from_id :: "int option"
  message :: "string option"
  type :: "string option"
  message_type :: "string option"
  wa_id :: "string option"
  wam_id :: string
  context_wam_id :: "string option"
  status :: string
  caption :: "string option"
  filename :: "string option"
  origin :: string
  raw_data :: string
  created_at :: string
  updated_at :: string
  msg_id :: int
  chat_status :: chat_status

record wasapi_message =
  event :: string
  data :: "wasapi_data option"

section \<open>The normalized event (\<open>sendObj\<close> of \<open>eventInMsg\<close>)\<close>

record host_info =
  phone :: string

text \<open>\<open>from\<close> is an Isar keyword: the field is \<open>from'\<close>.\<close>

record normalized_event =
  body :: string
  from' :: string
  name :: "string option"
  host :: host_info
  raw :: wasapi_message

section \<open>Models of the Wasapi SDK\<close>

record contact_data =
  first_name :: "string option"

text \<open>A contact object; \<open>contact.data\<close> may be missing.\<close>

record contact =
  cdata :: "contact_data option"

text \<open>An entry of \<open>getWhatsappNumbers().data\<close>; \<open>id\<close> is \<open>num_id\<close>.\<close>

record whatsapp_number =
  num_id :: int
  display_name :: string
  phone_number :: string

record numbers_response =
  numbers :: "whatsapp_number list option"

text \<open>\<open>SendMessage\<close> and \<open>SendAttachmentParams\<close>; field names carry a prefix since
  \<open>wa_id\<close>, \<open>from_id\<close> and \<open>message\<close> are fields of the payload too.\<close>

record send_message =
  sm_message :: string
  sm_wa_id :: string
  sm_from_id :: string

record send_attachment_params =
  sa_from_id :: string
  sa_wa_id :: string
  sa_filePath :: string
  sa_caption :: "string option"
  sa_filename :: "string option"

type_synonym bytes = "8 word list"

text \<open>An axios response: the \<open>content-type\<close> header and the raw body.\<close>

record http_response =
  content_type :: "string option"
  resp_data :: bytes

section \<open>Errors and effects\<close>

text \<open>
  What a \<open>catch\<close> can see: an error of the SDK or of HTTP (\<open>'e\<close>, opaque to the
  adapter), a \<open>TypeError\<close> of the runtime (reading a field of \<open>undefined\<close>), or an
  \<open>Error\<close> the code throws itself.
\<close>

datatype 'e js_error =
    Client_Error 'e
  | Type_Error string
  | Plain_Error string

datatype api_call =
    Get_Contact string
  | Get_Numbers
  | Send_Msg send_message
  | Send_Attachment send_attachment_params
  | Http_Get string "(string \<times> string) list"
  | Write_File string bytes

datatype log_line = Log_Error string | Log_Info string

text \<open>Payloads of the four topics of the event surface.\<close>

datatype event_payload =
    Msg_Event normalized_event
  | Auth_Failure "string list"
  | Ready_Flag bool
  | No_Payload

datatype effect =
    Call api_call
  | Log log_line
  | Emit string event_payload

type_synonym 'a out = "'a \<times> effect list"

definition emits :: "effect list \<Rightarrow> (string \<times> event_payload) list" where
  "emits es = List.map_filter (\<lambda>e. case e of Emit t p \<Rightarrow> Some (t, p) | _ \<Rightarrow> None) es"

definition calls :: "effect list \<Rightarrow> api_call list" where
  "calls es = List.map_filter (\<lambda>e. case e of Call c \<Rightarrow> Some c | _ \<Rightarrow> None) es"

lemma emits_simps [simp]:
  "emits [] = []"
  "emits (Emit t p # es) = (t, p) # emits es"
  "emits (Call c # es) = emits es"
  "emits (Log l # es) = emits es"
  "emits (xs @ ys) = emits xs @ emits ys"
  by (simp_all add: emits_def List.map_filter_def)

lemma calls_simps [simp]:
  "calls [] = []"
  "calls (Call c # es) = c # calls es"
  "calls (Emit t p # es) = calls es"
  "calls (Log l # es) = calls es"
  "calls (xs @ ys) = calls xs @ calls ys"
  by (simp_all add: calls_def List.map_filter_def)

end
