(* ===== verification/Normalizer.thy ===== *)
theory Normalizer
  imports Wasapi_Types
begin

text \<open>
  The inbound event normalizer: \<open>WasapiEvents.eventInMsg\<close> and
  \<open>WasapiEvents.getName\<close> of \<open>src/src/provider/wasapi.events.ts\<close>.
  The handler is \<open>async\<close>: its outcome is \<open>Inr ()\<close> when the promise resolves and
  \<open>Inl e\<close> when it rejects with \<open>e\<close>; the effects are listed in the order they
  happen (the contact lookup, the console line of a swallowed failure, the emission of
  the \<open>message\<close> event). The SDK's \<open>contacts.getById\<close> is the parameter
  \<open>getById\<close>, and \<open>utils.generateRefProvider\<close> of \<open>@builderbot/bot\<close> is the
  parameter \<open>gen\<close>: the placeholder body is whatever it makes of the token.
\<close>

section \<open>Definitions\<close>

text \<open>\<open>getName\<close> (lines 89--100): every failure inside the \<open>try\<close> is caught, logged
  and replaced by the fallback name; a contact without \<open>data\<close> raises a
  \<open>TypeError\<close> at \<open>contact.data.first_name\<close>, which is caught as well.\<close>

definition getName :: "(string \<Rightarrow> 'e + contact option) \<Rightarrow> string \<Rightarrow> string option out" where
  "getName getById w =
     (let c = Call (Get_Contact w); err = Log (Log_Error ''Error getting contact name:'') in
      case getById w of
        Inl _ \<Rightarrow> (Some ''Usuario'', [c, err])
      | Inr None \<Rightarrow> (Some ''Usuario'', [c])
      | Inr (Some ct) \<Rightarrow>
          (case cdata ct of
             None \<Rightarrow> (Some ''Usuario'', [c, err])
           | Some cd \<Rightarrow> (first_name cd, [c])))"

text \<open>The guard of line 55, evaluated left to right: \<open>Inr None\<close> returns early,
  \<open>Inr (Some w)\<close> goes on with the chat id \<open>w\<close>.\<close>

definition in_msg_filter :: "wasapi_data \<Rightarrow> 'e js_error + string option" where
  "in_msg_filter d =
     (if type d \<noteq> Some ''in'' then Inr None
      else case wa_id d of
        None \<Rightarrow> Inl (Type_Error ''Cannot read properties of undefined (reading 'includes')'')
      | Some w \<Rightarrow> if str_includes w ''g.us'' then Inr None else Inr (Some w))"

text \<open>Lines 66--69: four independent overwrites of \<open>sendObj.body\<close>, in source order.\<close>

definition classify_body :: "(string \<Rightarrow> string) \<Rightarrow> string option \<Rightarrow> string \<Rightarrow> string" where
  "classify_body gen mt b =
     (let b1 = (if mt \<in> Some ` set [''image'', ''video''] then gen ''_event_media_'' else b);
          b2 = (if mt = Some ''document'' then gen ''_event_document_'' else b1);
          b3 = (if mt = Some ''audio'' then gen ''_event_voice_note_'' else b2)
      in if mt = Some ''location'' then gen ''_event_location_'' else b3)"

text \<open>\<open>eventInMsg\<close> (lines 53--72). The object literal is evaluated in order:
  \<open>body\<close>, \<open>from\<close>, then the awaited name, then \<open>from_id.toString()\<close>, so a
  missing \<open>from_id\<close> fails after the lookup was made.\<close>

definition eventInMsg ::
  "(string \<Rightarrow> string) \<Rightarrow> (string \<Rightarrow> 'e + contact option) \<Rightarrow> wasapi_message \<Rightarrow>
   ('e js_error + unit) out" where
  "eventInMsg gen getById payload =
     (case data payload of
        None \<Rightarrow> (Inl (Type_Error ''Cannot read properties of undefined (reading 'type')''), [])
      | Some d \<Rightarrow>
          (case in_msg_filter d of
             Inl err \<Rightarrow> (Inl err, [])
           | Inr None \<Rightarrow> (Inr (), [])
           | Inr (Some w) \<Rightarrow>
               (let b0 = js_or_str (message d) '''';
                    (nm, eff) = getName getById w
                in case from_id d of
                     None \<Rightarrow>
                       (Inl (Type_Error ''Cannot read properties of undefined (reading 'toString')''), eff)
                   | Some fid \<Rightarrow>
                       (let obj = \<lparr>body = b0, from' = w, name = nm,
                                   host = \<lparr>phone = int_str fid\<rparr>, raw = payload\<rparr>;
                            obj' = obj\<lparr>body := classify_body gen (message_type d) (body obj)\<rparr>
                        in (Inr (), eff @ [Emit ''message'' (Msg_Event obj')])))))"

subsection \<open>The specification's placeholder table\<close>

text \<open>Spec \<S>4.1 as a lookup table: a listed media type gives its token, any other
  type the message text (empty when absent).\<close>

definition placeholder_table :: "(string \<times> string) list" where
  "placeholder_table =
     [(''image'', ''_event_media_''), (''video'', ''_event_media_''),
      (''document'', ''_event_document_''), (''audio'', ''_event_voice_note_''),
      (''location'', ''_event_location_'')]"

definition spec_body :: "(string \<Rightarrow> string) \<Rightarrow> string option \<Rightarrow> string option \<Rightarrow> string" where
  "spec_body gen mt msg =
     (case Option.bind mt (map_of placeholder_table) of
        Some tok \<Rightarrow> gen tok
      | None \<Rightarrow> js_or_str msg '''')"

text \<open>The type of a normalized event (spec \<S>3) relative to its payload: the body is the
  message text or one of the generated placeholder tokens, the event comes from the
  payload's chat and carries the payload, and the host phone is the printed sender device
  id.\<close>

definition event_typed :: "(string \<Rightarrow> string) \<Rightarrow> wasapi_message \<Rightarrow> normalized_event \<Rightarrow> bool" where
  "event_typed gen p ev =
     (case data p of
        None \<Rightarrow> False
      | Some d \<Rightarrow>
          (body ev = js_or_str (message d) '''' \<or> body ev \<in> set (map (gen \<circ> snd) placeholder_table)) \<and>
          wa_id d = Some (from' ev) \<and> raw ev = p \<and>
          (case from_id d of None \<Rightarrow> False | Some fid \<Rightarrow> phone (host ev) = int_str fid))"

subsection \<open>Fixtures\<close>

definition sample_data :: "string \<Rightarrow> string \<Rightarrow> string option \<Rightarrow> int option \<Rightarrow> wasapi_data" where
  "sample_data dir chat mt fid =
     \<lparr>user_id = 1, from_id = fid, message = Some ''hola'', type = Some dir,
      message_type = mt, wa_id = Some chat, wam_id = ''wamid.1'', context_wam_id = None,
      status = ''received'', caption = None, filename = None, origin = ''whatsapp'',
      raw_data = '''', created_at = ''2025-01-01T00:00:00Z'',
      updated_at = ''2025-01-01T00:00:00Z'', msg_id = 1,
      chat_status = \<lparr>conversation_status = ''open'', conversation_expiration = 0\<rparr>\<rparr>"

definition sample_payload :: "string \<Rightarrow> string \<Rightarrow> string option \<Rightarrow> wasapi_message" where
  "sample_payload dir chat mt = \<lparr>event = ''message.received'', data = Some (sample_data dir chat mt (Some 999))\<rparr>"

section \<open>Lemmas\<close>

lemmas normalizer_defs [wasapi_simps] = eventInMsg_def in_msg_filter_def getName_def

lemma getName_effects:
  "calls (snd (getName getById w)) = [Get_Contact w]"
  "emits (snd (getName getById w)) = []"
  by (auto simp: getName_def Let_def split: sum.splits option.splits)

lemma getName_fallback:
  "(\<exists>e. getById w = Inl e) \<or> getById w = Inr None \<or>
   (\<exists>ct. getById w = Inr (Some ct) \<and> cdata ct = None) \<Longrightarrow>
   fst (getName getById w) = Some ''Usuario''"
  by (auto simp: getName_def Let_def)

lemma getName_found:
  "getById w = Inr (Some ct) \<Longrightarrow> cdata ct = Some cd \<Longrightarrow>
   getName getById w = (first_name cd, [Call (Get_Contact w)])"
  by (simp add: getName_def)

lemma in_msg_filter_keep:
  "in_msg_filter d = Inr (Some w) \<longleftrightarrow>
   type d = Some ''in'' \<and> wa_id d = Some w \<and> \<not> str_includes w ''g.us''"
  by (auto simp: in_msg_filter_def split: option.splits if_splits)

lemma eventInMsg_kept:
  assumes "data p = Some d" "type d = Some ''in''" "wa_id d = Some w"
    and "\<not> str_includes w ''g.us''" and "from_id d = Some fid"
  shows "eventInMsg gen getById p =
    (Inr (), snd (getName getById w) @
       [Emit ''message'' (Msg_Event
          \<lparr>body = classify_body gen (message_type d) (js_or_str (message d) ''''),
           from' = w, name = fst (getName getById w),
           host = \<lparr>phone = int_str fid\<rparr>, raw = p\<rparr>)])"
  using assms by (simp add: eventInMsg_def in_msg_filter_def split_beta)

lemma eventInMsg_error_no_emit:
  "fst (eventInMsg gen getById p) = Inl err \<Longrightarrow> emits (snd (eventInMsg gen getById p)) = []"
  by (auto simp: eventInMsg_def getName_effects split_beta
           split: option.splits sum.splits)

lemma classify_body_eq_spec: "classify_body gen mt (js_or_str msg '''') = spec_body gen mt msg"
  by (cases mt) (auto simp: classify_body_def spec_body_def placeholder_table_def)

lemma getName_lookup_error:
  "getById w = Inl e \<Longrightarrow>
   getName getById w = (Some ''Usuario'', [Call (Get_Contact w), Log (Log_Error ''Error getting contact name:'')])"
  by (simp add: getName_def)

lemma emits_getName [simp]: "emits (snd (getName getById w)) = []"
  by (auto simp: getName_def Let_def split: sum.split option.split)

lemma eventInMsg_emitted:
  assumes "(''message'', Msg_Event ev) \<in> set (emits (snd (eventInMsg gen getById p)))"
  shows "\<exists>d w fid. data p = Some d \<and> type d = Some ''in'' \<and> wa_id d = Some w \<and>
           \<not> str_includes w ''g.us'' \<and> from_id d = Some fid \<and>
           ev = \<lparr>body = classify_body gen (message_type d) (js_or_str (message d) ''''),
                 from' = w, name = fst (getName getById w), host = \<lparr>phone = int_str fid\<rparr>, raw = p\<rparr>"
  using assms
  by (auto simp: eventInMsg_def in_msg_filter_def split_beta split: option.splits sum.splits if_splits)

subsection \<open>Properties of \<open>eventInMsg\<close>\<close>

text \<open>C1. An inbound message from a chat that is not a group is normalized into exactly
  one \<open>message\<close> event, after the one contact lookup: its body is the specification's
  placeholder for the message type (the text otherwise), \<open>from\<close> is the chat id,
  \<open>name\<close> the resolved name, \<open>host.phone\<close> the sender device id printed in decimal,
  \<open>raw\<close> the payload itself.\<close>

theorem eventInMsg_normalizes:
  assumes "data p = Some d" "type d = Some ''in''" "wa_id d = Some w"
    and "\<not> str_includes w ''g.us''" and "from_id d = Some fid"
  shows "eventInMsg gen getById p =
    (Inr (), snd (getName getById w) @
       [Emit ''message'' (Msg_Event
          \<lparr>body = spec_body gen (message_type d) (message d),
           from' = w, name = fst (getName getById w),
           host = \<lparr>phone = int_str fid\<rparr>, raw = p\<rparr>)])"
  using eventInMsg_kept [OF assms] by (simp only: classify_body_eq_spec)

theorem eventInMsg_normalizes_witness:
  "eventInMsg id (\<lambda>_. Inr None :: unit + contact option) (sample_payload ''in'' ''521555@c.us'' (Some ''image'')) =
    (Inr (), snd (getName (\<lambda>_. Inr None :: unit + contact option) ''521555@c.us'') @
       [Emit ''message'' (Msg_Event
          \<lparr>body = spec_body id (message_type (sample_data ''in'' ''521555@c.us'' (Some ''image'') (Some 999)))
                      (message (sample_data ''in'' ''521555@c.us'' (Some ''image'') (Some 999))),
           from' = ''521555@c.us'', name = fst (getName (\<lambda>_. Inr None :: unit + contact option) ''521555@c.us''),
           host = \<lparr>phone = int_str 999\<rparr>, raw = sample_payload ''in'' ''521555@c.us'' (Some ''image'')\<rparr>)])"
  by (rule eventInMsg_normalizes) (simp_all add: sample_payload_def sample_data_def)

text \<open>C2. A payload whose direction is not \<open>in\<close>, or whose chat id contains the group
  marker \<open>g.us\<close>, is dropped before anything happens: no contact lookup, no log line,
  no event, and the promise resolves.\<close>

theorem eventInMsg_discards:
  assumes "data p = Some d"
    and "type d \<noteq> Some ''in'' \<or> (\<exists>w. wa_id d = Some w \<and> str_includes w ''g.us'')"
  shows "eventInMsg gen getById p = (Inr (), [])"
  using assms by (auto simp: eventInMsg_def in_msg_filter_def)

theorem eventInMsg_discards_witness:
  "type (sample_data ''in'' ''1234-abc@g.us'' (Some ''text'') (Some 999)) = Some ''in'' \<and>
   eventInMsg id (\<lambda>_. Inr None :: unit + contact option) (sample_payload ''in'' ''1234-abc@g.us'' (Some ''text'')) = (Inr (), [])"
proof -
  have "eventInMsg id (\<lambda>_. Inr None :: unit + contact option) (sample_payload ''in'' ''1234-abc@g.us'' (Some ''text'')) = (Inr (), [])"
    by (rule eventInMsg_discards [where d = "sample_data ''in'' ''1234-abc@g.us'' (Some ''text'') (Some 999)"])
       (simp_all add: sample_payload_def sample_data_def)
  then show ?thesis by (simp add: sample_data_def)
qed

text \<open>C3. The body table of the specification (\<S>4.1): each media type gets its
  placeholder token, whatever the message text was; a text message keeps its text.\<close>

theorem body_placeholder_table:
  "classify_body gen (Some ''image'') b = gen ''_event_media_'' \<and>
   classify_body gen (Some ''video'') b = gen ''_event_media_'' \<and>
   classify_body gen (Some ''document'') b = gen ''_event_document_'' \<and>
   classify_body gen (Some ''audio'') b = gen ''_event_voice_note_'' \<and>
   classify_body gen (Some ''location'') b = gen ''_event_location_'' \<and>
   classify_body gen (Some ''text'') b = b"
  by (simp add: classify_body_def)

text \<open>C4. A failing contact lookup is swallowed: it is logged, the name falls back to
  \<open>Usuario\<close>, and the one \<open>message\<close> event is still emitted.\<close>

theorem eventInMsg_lookup_failure:
  assumes "data p = Some d" "type d = Some ''in''" "wa_id d = Some w"
    and "\<not> str_includes w ''g.us''" and "from_id d = Some fid" and "getById w = Inl e"
  shows "\<exists>ev. eventInMsg gen getById p =
           (Inr (), [Call (Get_Contact w), Log (Log_Error ''Error getting contact name:''),
                     Emit ''message'' (Msg_Event ev)]) \<and>
         name ev = Some ''Usuario'' \<and> from' ev = w"
  using assms(6) by (simp add: eventInMsg_kept [OF assms(1-5)] getName_lookup_error)

theorem eventInMsg_lookup_failure_witness:
  "\<exists>ev. eventInMsg id (\<lambda>_. Inl () :: unit + contact option) (sample_payload ''in'' ''521555@c.us'' (Some ''text'')) =
     (Inr (), [Call (Get_Contact ''521555@c.us''), Log (Log_Error ''Error getting contact name:''),
               Emit ''message'' (Msg_Event ev)]) \<and>
     name ev = Some ''Usuario'' \<and> from' ev = ''521555@c.us''"
  by (rule eventInMsg_lookup_failure [where d = "sample_data ''in'' ''521555@c.us'' (Some ''text'') (Some 999)" and fid = 999])
     (simp_all add: sample_payload_def sample_data_def)



text \<open>C6. An inbound payload without a sender device id fails only after the contact
  lookup was made (the name is awaited before \<open>from_id.toString()\<close> runs): the
  promise rejects with a \<open>TypeError\<close> and no event is emitted.\<close>

theorem eventInMsg_missing_from_id:
  assumes "data p = Some d" "type d = Some ''in''" "wa_id d = Some w"
    and "\<not> str_includes w ''g.us''" and "from_id d = None"
  shows "eventInMsg gen getById p =
           (Inl (Type_Error ''Cannot read properties of undefined (reading 'toString')''),
            snd (getName getById w))"
  using assms by (simp add: eventInMsg_def in_msg_filter_def split_beta)

theorem eventInMsg_missing_from_id_witness:
  "eventInMsg id (\<lambda>_. Inr None :: unit + contact option)
     \<lparr>event = ''message'', data = Some (sample_data ''in'' ''521555@c.us'' (Some ''text'') None)\<rparr> =
   (Inl (Type_Error ''Cannot read properties of undefined (reading 'toString')''),
    [Call (Get_Contact ''521555@c.us'')])"
proof -
  have "snd (getName (\<lambda>_. Inr None :: unit + contact option) ''521555@c.us'') = [Call (Get_Contact ''521555@c.us'')]"
    by (simp add: getName_def)
  moreover have "eventInMsg id (\<lambda>_. Inr None :: unit + contact option)
     \<lparr>event = ''message'', data = Some (sample_data ''in'' ''521555@c.us'' (Some ''text'') None)\<rparr> =
   (Inl (Type_Error ''Cannot read properties of undefined (reading 'toString')''),
    snd (getName (\<lambda>_. Inr None :: unit + contact option) ''521555@c.us''))"
    by (rule eventInMsg_missing_from_id [where d = "sample_data ''in'' ''521555@c.us'' (Some ''text'') None"])
       (simp_all add: sample_data_def)
  ultimately show ?thesis by simp
qed

text \<open>The scenario of spec \<S>8: an inbound text \<open>hola\<close> from \<open>521555@c.us\<close> to
  device \<open>999\<close> is normalized to \<open>{body: "hola", from: "521555@c.us", host: {phone:
  "999"}}\<close> (the contact is unknown here, so the name is the fallback).\<close>

theorem eventInMsg_spec_scenario:
  "eventInMsg gen (\<lambda>_. Inr None :: unit + contact option) (sample_payload ''in'' ''521555@c.us'' (Some ''text'')) =
   (Inr (), [Call (Get_Contact ''521555@c.us''),
             Emit ''message'' (Msg_Event
               \<lparr>body = ''hola'', from' = ''521555@c.us'', name = Some ''Usuario'',
                host = \<lparr>phone = ''999''\<rparr>,
                raw = sample_payload ''in'' ''521555@c.us'' (Some ''text'')\<rparr>)])"
proof -
  have "int_str 999 = ''999''" by (simp add: int_str_eval)
  then show ?thesis
    by (simp add: eventInMsg_def in_msg_filter_def getName_def classify_body_def
                  sample_payload_def sample_data_def)
qed

text \<open>C38. Every event the normalizer emits has the type of spec \<S>3 relative to its
  payload, except for the name: the name is undefined exactly when the contact lookup finds
  a contact whose record has no first name (the code returns \<open>contact.data.first_name\<close>
  unchecked).\<close>

theorem eventInMsg_event_typed:
  assumes "(''message'', Msg_Event ev) \<in> set (emits (snd (eventInMsg gen getById p)))"
  shows "event_typed gen p ev \<and>
         (name ev = None \<longleftrightarrow> (\<exists>c cd. getById (from' ev) = Inr (Some c) \<and> cdata c = Some cd \<and> first_name cd = None))"
proof -
  obtain d w fid where d: "data p = Some d" "wa_id d = Some w" "from_id d = Some fid"
    and ev: "ev = \<lparr>body = classify_body gen (message_type d) (js_or_str (message d) ''''),
                 from' = w, name = fst (getName getById w), host = \<lparr>phone = int_str fid\<rparr>, raw = p\<rparr>"
    using eventInMsg_emitted [OF assms] by blast
  have "classify_body gen (message_type d) (js_or_str (message d) '''') = js_or_str (message d) '''' \<or>
        classify_body gen (message_type d) (js_or_str (message d) '''') \<in> set (map (gen \<circ> snd) placeholder_table)"
    by (auto simp: classify_body_def placeholder_table_def)
  then have "event_typed gen p ev"
    using d by (simp add: event_typed_def ev)
  moreover have "name ev = None \<longleftrightarrow> (\<exists>c cd. getById w = Inr (Some c) \<and> cdata c = Some cd \<and> first_name cd = None)"
    by (auto simp: ev getName_def Let_def split: sum.split option.split)
  ultimately show ?thesis by (simp add: ev)
qed

theorem eventInMsg_event_typed_witness:
  "event_typed id (sample_payload ''in'' ''521555@c.us'' (Some ''text'')) \<lparr>body = ''hola'', from' = ''521555@c.us'', name = Some ''Usuario'', host = \<lparr>phone = int_str 999\<rparr>, raw = sample_payload ''in'' ''521555@c.us'' (Some ''text'')\<rparr> \<and>
   (name \<lparr>body = ''hola'', from' = ''521555@c.us'', name = Some ''Usuario'', host = \<lparr>phone = int_str 999\<rparr>, raw = sample_payload ''in'' ''521555@c.us'' (Some ''text'')\<rparr> = None \<longleftrightarrow>
      (\<exists>c cd. (\<lambda>_. Inr None :: unit + contact option) (from' \<lparr>body = ''hola'', from' = ''521555@c.us'', name = Some ''Usuario'', host = \<lparr>phone = int_str 999\<rparr>, raw = sample_payload ''in'' ''521555@c.us'' (Some ''text'')\<rparr>) = Inr (Some c) \<and> cdata c = Some cd \<and> first_name cd = None))"
  by (rule eventInMsg_event_typed)
     (simp add: eventInMsg_def in_msg_filter_def getName_def classify_body_def sample_payload_def sample_data_def)



end
