(* ===== verification/Device_Status.thy ===== *)
theory Device_Status
  imports Wasapi_Types
begin

text \<open>
  The device status check of \<open>WasapiProvider.checkStatus\<close>
  (\<open>src/src/provider/wasapi.provider.ts\<close>, lines 144--176), run once by
  \<open>initVendor\<close>. The SDK call \<open>whatsapp.getWhatsappNumbers()\<close> is the parameter
  \<open>getNumbers\<close> (its settled outcome); \<open>has_vendor\<close> says whether \<open>this.vendor\<close> is
  set (it is when \<open>initVendor\<close> calls the check). \<open>this.emit\<close> invokes the
  provider's listeners synchronously inside the \<open>try\<close>, so a listener that throws
  sends control to the \<open>catch\<close>: the parameter \<open>throws t p\<close> says whether some
  listener of topic \<open>t\<close> throws on payload \<open>p\<close>.

  The specification describes the check as a one-shot lifecycle
  \<open>pending \<rightarrow> ready\<close> or \<open>pending \<rightarrow> auth_failure\<close>, terminal either way: the
  inductive relation \<open>lifecycle_trace\<close> accepts exactly the event sequences that
  follow it.
\<close>

section \<open>Definitions\<close>

definition not_found_instructions :: "string \<Rightarrow> string list" where
  "not_found_instructions dev =
     [''Device with ID '' @ dev @ '' not found'',
      ''Please check your device ID at: https://api-docs.wasapi.io/reference/get_whatsapp-numbers'']"

definition generic_instructions :: "string list" where
  "generic_instructions = [''Unable to check device status'', ''Please verify your token and device ID'']"

text \<open>\<open>data.find(device => device.id.toString() === deviceId)\<close>: a string comparison.\<close>

definition find_device :: "string \<Rightarrow> whatsapp_number list \<Rightarrow> whatsapp_number option" where
  "find_device dev ds = find (\<lambda>d. int_str (num_id d) = dev) ds"

text \<open>The \<open>catch\<close> block, after the effects \<open>pre\<close> of the \<open>try\<close>: a log line and the
  generic \<open>auth_failure\<close>; if a listener throws on that emission, the promise rejects.\<close>

definition check_catch ::
  "(string \<Rightarrow> event_payload \<Rightarrow> bool) \<Rightarrow> effect list \<Rightarrow> ('e js_error + unit) out" where
  "check_catch throws pre =
     (let p = Auth_Failure generic_instructions
      in (if throws ''auth_failure'' p then Inl (Plain_Error ''listener error'') else Inr (),
          pre @ [Log (Log_Error ''Error checking device status:''), Emit ''auth_failure'' p]))"

definition checkStatus ::
  "bool \<Rightarrow> 'e + numbers_response \<Rightarrow> (string \<Rightarrow> event_payload \<Rightarrow> bool) \<Rightarrow> string \<Rightarrow>
   ('e js_error + unit) out" where
  "checkStatus has_vendor getNumbers throws dev =
     (if \<not> has_vendor then check_catch throws []
      else case getNumbers of
        Inl _ \<Rightarrow> check_catch throws [Call Get_Numbers]
      | Inr resp \<Rightarrow>
          (case numbers resp of
             None \<Rightarrow> check_catch throws [Call Get_Numbers]
           | Some ds \<Rightarrow>
               (case find_device dev ds of
                  None \<Rightarrow>
                    (let p = Auth_Failure (not_found_instructions dev);
                         eff = [Call Get_Numbers, Emit ''auth_failure'' p]
                     in if throws ''auth_failure'' p then check_catch throws eff else (Inr (), eff))
                | Some d \<Rightarrow>
                    (let eff = [Call Get_Numbers,
                                Log (Log_Info (''Device '' @ dev @ '' found: '' @ display_name d @
                                               '' ('' @ phone_number d @ '')'')),
                                Emit ''ready'' No_Payload]
                     in if throws ''ready'' No_Payload then check_catch throws eff else (Inr (), eff)))))"

subsection \<open>The lifecycle of the specification\<close>

datatype lifecycle = Pending | Ready | Auth_Failed

inductive lifecycle_step :: "lifecycle \<Rightarrow> string \<times> event_payload \<Rightarrow> lifecycle \<Rightarrow> bool" where
  to_ready: "lifecycle_step Pending (''ready'', p) Ready"
| to_failed: "lifecycle_step Pending (''auth_failure'', p) Auth_Failed"

inductive lifecycle_trace :: "lifecycle \<Rightarrow> (string \<times> event_payload) list \<Rightarrow> lifecycle \<Rightarrow> bool" where
  trace_nil: "lifecycle_trace s [] s"
| trace_cons: "lifecycle_step s e s' \<Longrightarrow> lifecycle_trace s' es s'' \<Longrightarrow> lifecycle_trace s (e # es) s''"

fun terminal :: "lifecycle \<Rightarrow> bool" where
  "terminal Pending = False"
| "terminal Ready = True"
| "terminal Auth_Failed = True"

subsection \<open>Fixtures\<close>

definition sample_number :: whatsapp_number where
  "sample_number = \<lparr>num_id = 4021, display_name = ''Ventas'', phone_number = ''+5215550000''\<rparr>"

section \<open>Lemmas\<close>

inductive_cases lifecycle_step_PendingE: "lifecycle_step Pending e s"
inductive_cases lifecycle_step_ReadyE [elim!]: "lifecycle_step Ready e s"
inductive_cases lifecycle_step_FailedE [elim!]: "lifecycle_step Auth_Failed e s"
inductive_cases lifecycle_trace_consE: "lifecycle_trace s (e # es) s''"
inductive_cases lifecycle_trace_nilE [elim!]: "lifecycle_trace s [] s'"

lemma terminal_no_step: "terminal s \<Longrightarrow> \<not> lifecycle_step s e s'"
  by (cases s) auto

lemma lifecycle_trace_single:
  "lifecycle_trace Pending [e] s \<longleftrightarrow> (fst e = ''ready'' \<and> s = Ready \<or> fst e = ''auth_failure'' \<and> s = Auth_Failed)"
proof
  assume "lifecycle_trace Pending [e] s"
  then show "fst e = ''ready'' \<and> s = Ready \<or> fst e = ''auth_failure'' \<and> s = Auth_Failed"
    by (auto elim!: lifecycle_trace_consE lifecycle_step_PendingE)
next
  assume "fst e = ''ready'' \<and> s = Ready \<or> fst e = ''auth_failure'' \<and> s = Auth_Failed"
  then show "lifecycle_trace Pending [e] s"
    by (cases e) (auto intro: lifecycle_trace.intros lifecycle_step.intros)
qed

lemma lifecycle_trace_two_events: "\<not> lifecycle_trace Pending [e1, e2] s"
  by (auto elim!: lifecycle_trace_consE lifecycle_step_PendingE)

lemma check_catch_effects:
  "emits (snd (check_catch throws pre)) = emits pre @ [(''auth_failure'', Auth_Failure generic_instructions)]"
  "calls (snd (check_catch throws pre)) = calls pre"
  by (simp_all add: check_catch_def Let_def)

lemma find_device_Some_iff: "(\<exists>d. find_device dev ds = Some d) \<longleftrightarrow> (\<exists>d\<in>set ds. int_str (num_id d) = dev)"
  by (simp add: find_device_def find_Some_iff_member)

lemma sample_number_id: "int_str (num_id sample_number) = ''4021''"
  by (simp add: sample_number_def int_str_eval)

lemma checkStatus_found_eq:
  assumes "getNumbers = Inr resp" "numbers resp = Some ds" "find_device dev ds = Some d"
    and "\<not> throws ''ready'' No_Payload"
  shows "checkStatus True getNumbers throws dev =
    (Inr (), [Call Get_Numbers,
              Log (Log_Info (''Device '' @ dev @ '' found: '' @ display_name d @ '' ('' @ phone_number d @ '')'')),
              Emit ''ready'' No_Payload])"
  using assms by (simp add: checkStatus_def)

lemma checkStatus_found_throwing:
  assumes "getNumbers = Inr resp" "numbers resp = Some ds" "find_device dev ds = Some d"
    and "throws ''ready'' No_Payload"
  shows "checkStatus True getNumbers throws dev =
    (if throws ''auth_failure'' (Auth_Failure generic_instructions) then Inl (Plain_Error ''listener error'') else Inr (),
     [Call Get_Numbers,
      Log (Log_Info (''Device '' @ dev @ '' found: '' @ display_name d @ '' ('' @ phone_number d @ '')'')),
      Emit ''ready'' No_Payload, Log (Log_Error ''Error checking device status:''),
      Emit ''auth_failure'' (Auth_Failure generic_instructions)])"
  using assms by (simp add: checkStatus_def check_catch_def Let_def)

subsection \<open>Properties of \<open>checkStatus\<close>\<close>

text \<open>C8. When the provider lists a device whose id prints as the configured id, the
  check resolves and emits exactly one \<open>ready\<close> event and no \<open>auth_failure\<close>.\<close>

theorem checkStatus_found:
  assumes "getNumbers = Inr resp" "numbers resp = Some ds"
    and "\<exists>d\<in>set ds. int_str (num_id d) = dev" and "\<forall>t p. \<not> throws t p"
  shows "fst (checkStatus True getNumbers throws dev) = Inr () \<and>
         emits (snd (checkStatus True getNumbers throws dev)) = [(''ready'', No_Payload)]"
proof -
  from assms(3) obtain d where "find_device dev ds = Some d"
    using find_device_Some_iff by blast
  with assms show ?thesis by (simp add: checkStatus_found_eq)
qed

theorem checkStatus_found_witness:
  "fst (checkStatus True (Inr \<lparr>numbers = Some [sample_number]\<rparr> :: unit + numbers_response) (\<lambda>_ _. False) ''4021'') = Inr () \<and>
   emits (snd (checkStatus True (Inr \<lparr>numbers = Some [sample_number]\<rparr> :: unit + numbers_response) (\<lambda>_ _. False) ''4021'')) =
     [(''ready'', No_Payload)]"
  by (rule checkStatus_found [where ds = "[sample_number]" and resp = "\<lparr>numbers = Some [sample_number]\<rparr>"]) (simp_all add: sample_number_id)

text \<open>C9. When no listed device has the configured id, the check resolves and emits
  exactly one \<open>auth_failure\<close>, whose instruction list is not empty, and no \<open>ready\<close>.\<close>

theorem checkStatus_not_found:
  assumes "getNumbers = Inr resp" "numbers resp = Some ds"
    and "\<forall>d\<in>set ds. int_str (num_id d) \<noteq> dev" and "\<forall>t p. \<not> throws t p"
  shows "fst (checkStatus True getNumbers throws dev) = Inr () \<and>
         emits (snd (checkStatus True getNumbers throws dev)) =
           [(''auth_failure'', Auth_Failure (not_found_instructions dev))] \<and>
         not_found_instructions dev \<noteq> []"
proof -
  from assms(3) have "find_device dev ds = None"
    by (simp add: find_device_def find_None_iff)
  with assms show ?thesis by (simp add: checkStatus_def not_found_instructions_def)
qed

theorem checkStatus_not_found_witness:
  "fst (checkStatus True (Inr \<lparr>numbers = Some [sample_number]\<rparr> :: unit + numbers_response) (\<lambda>_ _. False) ''4022'') = Inr () \<and>
   emits (snd (checkStatus True (Inr \<lparr>numbers = Some [sample_number]\<rparr> :: unit + numbers_response) (\<lambda>_ _. False) ''4022'')) =
     [(''auth_failure'', Auth_Failure (not_found_instructions ''4022''))] \<and>
   not_found_instructions ''4022'' \<noteq> []"
  by (rule checkStatus_not_found [where ds = "[sample_number]" and resp = "\<lparr>numbers = Some [sample_number]\<rparr>"]) (simp_all add: sample_number_id)

text \<open>C10. A failing provider call is not propagated: the check logs it, emits the
  generic \<open>auth_failure\<close>, makes no second call and resolves.\<close>

theorem checkStatus_transport_error:
  assumes "getNumbers = Inl e" and "\<not> throws ''auth_failure'' (Auth_Failure generic_instructions)"
  shows "checkStatus True getNumbers throws dev =
    (Inr (), [Call Get_Numbers, Log (Log_Error ''Error checking device status:''),
              Emit ''auth_failure'' (Auth_Failure generic_instructions)])"
  using assms by (simp add: checkStatus_def check_catch_def)

theorem checkStatus_transport_error_witness:
  "checkStatus True (Inl () :: unit + numbers_response) (\<lambda>_ _. False) ''4021'' =
    (Inr (), [Call Get_Numbers, Log (Log_Error ''Error checking device status:''),
              Emit ''auth_failure'' (Auth_Failure generic_instructions)])"
  by (rule checkStatus_transport_error) simp_all

text \<open>C11. Refinement of the one-shot lifecycle: whatever the provider answers, and
  whether or not the vendor is set, the events the check emits (when no listener throws)
  take the lifecycle from \<open>Pending\<close> to a terminal state.\<close>

theorem checkStatus_one_shot:
  assumes "\<forall>t p. \<not> throws t p"
  shows "\<exists>s. terminal s \<and> lifecycle_trace Pending (emits (snd (checkStatus hv getNumbers throws dev))) s"
  using assms
  by (auto simp: checkStatus_def check_catch_def Let_def lifecycle_trace_single
           split: sum.splits option.splits)

theorem checkStatus_one_shot_witness:
  "\<exists>s. terminal s \<and>
     lifecycle_trace Pending (emits (snd (checkStatus False (Inl () :: unit + numbers_response) (\<lambda>_ _. False) ''4021''))) s"
  by (rule checkStatus_one_shot) simp

text \<open>The check never retries: it calls the provider at most once.\<close>

lemma checkStatus_no_retry: "length (calls (snd (checkStatus hv getNumbers throws dev))) \<le> 1"
  by (auto simp: checkStatus_def check_catch_def Let_def split: sum.splits option.splits)

text \<open>C13. The listeners run inside the \<open>try\<close>: if a \<open>ready\<close> listener throws, the
  \<open>catch\<close> emits \<open>auth_failure\<close> after \<open>ready\<close>, and the emitted sequence leaves the
  one-shot lifecycle of the specification.\<close>

theorem checkStatus_ready_listener_throws:
  assumes "getNumbers = Inr resp" "numbers resp = Some ds"
    and "\<exists>d\<in>set ds. int_str (num_id d) = dev"
    and "throws ''ready'' No_Payload" and "\<not> throws ''auth_failure'' (Auth_Failure generic_instructions)"
  shows "emits (snd (checkStatus True getNumbers throws dev)) =
           [(''ready'', No_Payload), (''auth_failure'', Auth_Failure generic_instructions)] \<and>
         \<not> (\<exists>s. lifecycle_trace Pending (emits (snd (checkStatus True getNumbers throws dev))) s)"
proof -
  from assms(3) obtain d where "find_device dev ds = Some d"
    using find_device_Some_iff by blast
  with assms have "emits (snd (checkStatus True getNumbers throws dev)) =
           [(''ready'', No_Payload), (''auth_failure'', Auth_Failure generic_instructions)]"
    by (simp add: checkStatus_found_throwing)
  then show ?thesis by (simp add: lifecycle_trace_two_events)
qed

theorem checkStatus_ready_listener_throws_witness:
  "emits (snd (checkStatus True (Inr \<lparr>numbers = Some [sample_number]\<rparr> :: unit + numbers_response)
                 (\<lambda>t _. t = ''ready'') ''4021'')) =
     [(''ready'', No_Payload), (''auth_failure'', Auth_Failure generic_instructions)] \<and>
   \<not> (\<exists>s. lifecycle_trace Pending (emits (snd (checkStatus True (Inr \<lparr>numbers = Some [sample_number]\<rparr> :: unit + numbers_response)
                 (\<lambda>t _. t = ''ready'') ''4021''))) s)"
  by (rule checkStatus_ready_listener_throws [where ds = "[sample_number]" and resp = "\<lparr>numbers = Some [sample_number]\<rparr>"]) (simp_all add: sample_number_id)


end
