(* ===== verification/Provider.thy ===== *)
theory Provider
  imports Wasapi_Types
begin

text \<open>
  The configuration and outbound half of \<open>WasapiProvider\<close>
  (\<open>src/src/provider/wasapi.provider.ts\<close>): the constructor (lines 20--40), which
  merges the caller's arguments over the defaults with an object spread and fails fast
  on a missing token or device id, and the two send paths \<open>sendMessage\<close>
  (lines 185--200) and \<open>sendAttachment\<close> (lines 202--216).

  An argument property of the spread is \<open>'a option option\<close>: \<open>None\<close> when the
  property is absent (the default stays), \<open>Some None\<close> when it is present with value
  \<open>undefined\<close> (it overrides the default), \<open>Some (Some v)\<close> for a value. The SDK
  calls \<open>whatsapp.sendMessage\<close> and \<open>whatsapp.sendAttachment\<close> are parameters
  returning the settled outcome \<open>'e + 'r\<close>; the optional \<open>caption\<close> and
  \<open>filename\<close> arguments are \<open>cap\<close> and \<open>fname\<close>; \<open>has_vendor\<close> says whether
  \<open>this.vendor\<close> is set (by \<open>initVendor\<close>).
\<close>

section \<open>Definitions\<close>

subsection \<open>Configuration\<close>

record wasapi_args =
  arg_name :: "string option option"
  arg_port :: "int option option"
  arg_token :: "string option option"
  arg_deviceId :: "string option option"

text \<open>The merged \<open>globalVendorArgs\<close>; \<open>None\<close> is \<open>undefined\<close>.\<close>

record vendor_args =
  va_name :: "string option"
  va_port :: "int option"
  va_token :: "string option"
  va_deviceId :: "string option"

definition default_vendor_args :: vendor_args where
  "default_vendor_args = \<lparr>va_name = Some ''bot'', va_port = Some 3000, va_token = None, va_deviceId = None\<rparr>"

definition spread :: "'a option \<Rightarrow> 'a option option \<Rightarrow> 'a option" where
  "spread dflt a = (case a of None \<Rightarrow> dflt | Some v \<Rightarrow> v)"

text \<open>\<open>{ ...this.globalVendorArgs, ...args }\<close>; spreading an absent \<open>args\<close> copies nothing.\<close>

definition merge_args :: "wasapi_args option \<Rightarrow> vendor_args" where
  "merge_args args =
     (case args of
        None \<Rightarrow> default_vendor_args
      | Some a \<Rightarrow>
          \<lparr>va_name = spread (va_name default_vendor_args) (arg_name a),
           va_port = spread (va_port default_vendor_args) (arg_port a),
           va_token = spread (va_token default_vendor_args) (arg_token a),
           va_deviceId = spread (va_deviceId default_vendor_args) (arg_deviceId a)\<rparr>)"

definition token_error_msg :: string where
  "token_error_msg = ''Must provide Wasapi Token https://ayuda.wasapi.io/es/articles/8843315-uso-de-la-api-de-wasapi''"

definition device_error_msg :: string where
  "device_error_msg = ''You must provide the DeviceID https://api-docs.wasapi.io/reference/get_whatsapp-numbers''"

text \<open>The constructed provider's configuration: both credentials are non-empty strings.\<close>

record provider_cfg =
  cfg_name :: "string option"
  cfg_port :: "int option"
  cfg_token :: string
  cfg_deviceId :: string

definition new_WasapiProvider :: "wasapi_args option \<Rightarrow> 'e js_error + provider_cfg" where
  "new_WasapiProvider args =
     (let g = merge_args args in
      case va_token g of
        None \<Rightarrow> Inl (Plain_Error token_error_msg)
      | Some tok \<Rightarrow>
          if tok = [] then Inl (Plain_Error token_error_msg)
          else case va_deviceId g of
            None \<Rightarrow> Inl (Plain_Error device_error_msg)
          | Some dev \<Rightarrow>
              if dev = [] then Inl (Plain_Error device_error_msg)
              else Inr \<lparr>cfg_name = va_name g, cfg_port = va_port g, cfg_token = tok, cfg_deviceId = dev\<rparr>)"

subsection \<open>Outbound dispatch\<close>

definition message_payload :: "provider_cfg \<Rightarrow> string \<Rightarrow> string \<Rightarrow> send_message" where
  "message_payload cfg userId msg = \<lparr>sm_message = msg, sm_wa_id = userId, sm_from_id = cfg_deviceId cfg\<rparr>"

text \<open>\<open>sendMessage\<close>: the \<open>catch\<close> logs and rethrows the same error.\<close>

definition sendMessage ::
  "provider_cfg \<Rightarrow> bool \<Rightarrow> (send_message \<Rightarrow> 'e + 'r) \<Rightarrow> string \<Rightarrow> string \<Rightarrow> ('e js_error + 'r) out" where
  "sendMessage cfg has_vendor send userId msg =
     (let p = message_payload cfg userId msg;
          logged = Log (Log_Error ''Error sending message:'')
      in if \<not> has_vendor
         then (Inl (Type_Error ''Cannot read properties of undefined (reading 'getClient')''), [logged])
         else case send p of
           Inl e \<Rightarrow> (Inl (Client_Error e), [Call (Send_Msg p), logged])
         | Inr r \<Rightarrow> (Inr r, [Call (Send_Msg p)]))"

definition attachment_payload ::
  "provider_cfg \<Rightarrow> string \<Rightarrow> string \<Rightarrow> string option \<Rightarrow> string option \<Rightarrow> send_attachment_params" where
  "attachment_payload cfg userId filePath cap fname =
     \<lparr>sa_from_id = cfg_deviceId cfg, sa_wa_id = userId, sa_filePath = filePath,
      sa_caption = cap, sa_filename = fname\<rparr>"

text \<open>\<open>sendAttachment\<close>: the \<open>catch\<close> logs and falls off the end, so the promise
  resolves to \<open>undefined\<close> (\<open>None\<close>).\<close>

definition sendAttachment ::
  "provider_cfg \<Rightarrow> bool \<Rightarrow> (send_attachment_params \<Rightarrow> 'e + 'r) \<Rightarrow> string \<Rightarrow> string \<Rightarrow>
   string option \<Rightarrow> string option \<Rightarrow> ('e js_error + 'r option) out" where
  "sendAttachment cfg has_vendor send userId filePath cap fname =
     (let p = attachment_payload cfg userId filePath cap fname;
          logged = Log (Log_Error ''Error Sending message with multimedia'')
      in if \<not> has_vendor then (Inr None, [logged])
         else case send p of
           Inl _ \<Rightarrow> (Inr None, [Call (Send_Attachment p), logged])
         | Inr r \<Rightarrow> (Inr (Some r), [Call (Send_Attachment p)]))"

subsection \<open>Fixtures\<close>

definition sample_args :: wasapi_args where
  "sample_args = \<lparr>arg_name = None, arg_port = None, arg_token = Some (Some ''tok-123''),
                  arg_deviceId = Some (Some ''4021'')\<rparr>"

definition sample_cfg :: provider_cfg where
  "sample_cfg = \<lparr>cfg_name = Some ''bot'', cfg_port = Some 3000, cfg_token = ''tok-123'', cfg_deviceId = ''4021''\<rparr>"

section \<open>Lemmas\<close>

lemma spread_simps [simp]:
  "spread d None = d"
  "spread d (Some v) = v"
  by (simp_all add: spread_def)

lemma spread_None_Some [simp]: "spread None x = Some v \<longleftrightarrow> x = Some (Some v)"
  by (cases x) simp_all

lemma merge_args_token: "va_token (merge_args args) = (case args of None \<Rightarrow> None | Some a \<Rightarrow> spread None (arg_token a))"
  by (simp add: merge_args_def default_vendor_args_def split: option.split)

lemma merge_args_deviceId:
  "va_deviceId (merge_args args) = (case args of None \<Rightarrow> None | Some a \<Rightarrow> spread None (arg_deviceId a))"
  by (simp add: merge_args_def default_vendor_args_def split: option.split)

lemma new_WasapiProvider_Inr:
  "new_WasapiProvider args = Inr cfg \<longleftrightarrow>
   va_token (merge_args args) = Some (cfg_token cfg) \<and> cfg_token cfg \<noteq> [] \<and>
   va_deviceId (merge_args args) = Some (cfg_deviceId cfg) \<and> cfg_deviceId cfg \<noteq> [] \<and>
   cfg_name cfg = va_name (merge_args args) \<and> cfg_port cfg = va_port (merge_args args)"
  by (cases cfg)
     (auto simp: new_WasapiProvider_def Let_def split: option.splits if_splits)

lemma new_WasapiProvider_no_token:
  "\<not> js_truthy_str (va_token (merge_args args)) \<Longrightarrow> new_WasapiProvider args = Inl (Plain_Error token_error_msg)"
  by (auto simp: new_WasapiProvider_def Let_def js_truthy_str_def split: option.splits)

subsection \<open>Properties of the constructor\<close>

text \<open>C14. A provider is only constructed with a non-empty token and a non-empty device
  id, both given by the caller: the defaults supply neither.\<close>

theorem new_WasapiProvider_requires_credentials:
  assumes "new_WasapiProvider args = Inr cfg"
  shows "cfg_token cfg \<noteq> [] \<and> cfg_deviceId cfg \<noteq> [] \<and>
         (\<exists>a. args = Some a \<and> arg_token a = Some (Some (cfg_token cfg)) \<and>
              arg_deviceId a = Some (Some (cfg_deviceId cfg)))"
proof -
  from assms have tok: "va_token (merge_args args) = Some (cfg_token cfg)" and "cfg_token cfg \<noteq> []"
    and dev: "va_deviceId (merge_args args) = Some (cfg_deviceId cfg)" and "cfg_deviceId cfg \<noteq> []"
    by (simp_all add: new_WasapiProvider_Inr)
  moreover from tok dev obtain a where "args = Some a" "arg_token a = Some (Some (cfg_token cfg))"
      "arg_deviceId a = Some (Some (cfg_deviceId cfg))"
    by (auto simp: merge_args_token merge_args_deviceId split: option.splits)
  ultimately show ?thesis by blast
qed

theorem new_WasapiProvider_requires_credentials_witness:
  "new_WasapiProvider (Some sample_args) = (Inr sample_cfg :: unit js_error + provider_cfg) \<and>
   cfg_token sample_cfg \<noteq> [] \<and> cfg_deviceId sample_cfg \<noteq> [] \<and>
   (\<exists>a. Some sample_args = Some a \<and> arg_token a = Some (Some (cfg_token sample_cfg)) \<and>
        arg_deviceId a = Some (Some (cfg_deviceId sample_cfg)))"
proof -
  have ok: "new_WasapiProvider (Some sample_args) = (Inr sample_cfg :: unit js_error + provider_cfg)"
    by (simp add: new_WasapiProvider_def merge_args_def default_vendor_args_def sample_args_def sample_cfg_def)
  show ?thesis using ok new_WasapiProvider_requires_credentials [OF ok] by blast
qed

text \<open>C15. The token is checked first: without a truthy token (no arguments at all, an
  absent, \<open>undefined\<close> or empty token) construction fails with the token error,
  whatever the device id.\<close>

theorem new_WasapiProvider_token_first:
  assumes "args = None \<or> (\<exists>a. args = Some a \<and> arg_token a \<in> {None, Some None, Some (Some [])})"
  shows "new_WasapiProvider args = Inl (Plain_Error token_error_msg)"
  using assms by (auto intro!: new_WasapiProvider_no_token simp: merge_args_token)

theorem new_WasapiProvider_token_first_witness:
  "new_WasapiProvider (Some (sample_args\<lparr>arg_token := Some None\<rparr>)) =
     (Inl (Plain_Error token_error_msg) :: unit js_error + provider_cfg)"
  by (rule new_WasapiProvider_token_first) simp

subsection \<open>Properties of the send paths\<close>

text \<open>C16. \<open>sendMessage\<close> sends one request tagged with the user and the configured
  device, and its outcome is the client's outcome: a client error is rethrown unmodified.\<close>

theorem sendMessage_propagates:
  "fst (sendMessage cfg True send userId msg) = map_sum Client_Error id (send (message_payload cfg userId msg)) \<and>
   calls (snd (sendMessage cfg True send userId msg)) =
     [Send_Msg \<lparr>sm_message = msg, sm_wa_id = userId, sm_from_id = cfg_deviceId cfg\<rparr>]"
  by (cases "send (message_payload cfg userId msg)") (simp_all add: sendMessage_def message_payload_def)

text \<open>\<open>sendAttachment\<close> never rejects: a failing client call, or a vendor not yet
  set, only shows as the result \<open>undefined\<close>; a successful call returns its response.\<close>

theorem sendAttachment_swallows:
  "fst (sendAttachment cfg hv send userId filePath cap fname) =
     Inr (if hv then (case send (attachment_payload cfg userId filePath cap fname) of
                        Inl _ \<Rightarrow> None | Inr r \<Rightarrow> Some r)
          else None)"
  by (cases "send (attachment_payload cfg userId filePath cap fname)") (simp_all add: sendAttachment_def)

end
