(* ===== verification/Attachment.thy ===== *)
theory Attachment
  imports Provider
begin

text \<open>
  The attachment resolver of \<open>WasapiProvider\<close>
  (\<open>src/src/provider/wasapi.provider.ts\<close>): \<open>fileTypeFromFile\<close> (lines 97--104),
  \<open>downloadFile\<close> (lines 119--137) and \<open>saveFile\<close> (lines 227--239).
  The collaborators are an environment record: the HTTP client (\<open>axios.get\<close>, its
  settled outcome), \<open>mime.extension\<close> (\<open>None\<close> for its \<open>false\<close>),
  \<open>fs/promises.writeFile\<close> (its outcome), \<open>os.tmpdir()\<close>, \<open>Date.now()\<close> and
  \<open>path.join\<close>. The file system is an explicit store from paths to contents, which
  \<open>saveFile\<close> returns updated.
\<close>

section \<open>Definitions\<close>

record 'e att_env =
  http_get :: "string \<Rightarrow> (string \<times> string) list \<Rightarrow> 'e + http_response"
  mime_extension :: "string \<Rightarrow> string option"
  write_file :: "string \<Rightarrow> bytes \<Rightarrow> 'e + unit"
  tmpdir :: string
  now :: nat
  path_join :: "string \<Rightarrow> string \<Rightarrow> string"

type_synonym file_store = "string \<Rightarrow> bytes option"

definition URL_S3 :: string where
  "URL_S3 = ''https://wasapi-assets.s3.us-east-2.amazonaws.com/media''"

text \<open>\<open>fileTypeFromFile\<close>: the content type, \<open>''\<close> when the header is missing, and
  its extension.\<close>

definition fileTypeFromFile :: "'e att_env \<Rightarrow> http_response \<Rightarrow> string \<times> string option" where
  "fileTypeFromFile env resp =
     (let ty = (case content_type resp of None \<Rightarrow> '''' | Some t \<Rightarrow> t)
      in (ty, mime_extension env ty))"

text \<open>\<open>downloadFile\<close>: every failure is caught and logged, and the promise resolves to
  \<open>undefined\<close> (\<open>None\<close>).\<close>

definition downloadFile :: "'e att_env \<Rightarrow> provider_cfg \<Rightarrow> string \<Rightarrow> (bytes \<times> string) option out" where
  "downloadFile env cfg idResource =
     (let url = URL_S3 @ ''/'' @ idResource;
          hdrs = [(''Token'', cfg_token cfg)];
          get = Call (Http_Get url hdrs)
      in case http_get env url hdrs of
           Inl _ \<Rightarrow> (None, [get, Log (Log_Error ''request failed'')])
         | Inr resp \<Rightarrow>
             (case snd (fileTypeFromFile env resp) of
                None \<Rightarrow> (None, [get, Log (Log_Error ''Unable to determine file extension'')])
              | Some ext \<Rightarrow>
                  if ext = [] then (None, [get, Log (Log_Error ''Unable to determine file extension'')])
                  else (Some (resp_data resp, ext), [get])))"

text \<open>The part of the bot context \<open>saveFile\<close> reads: \<open>ctx?.data?.media\<close> and its
  \<open>links\<close>.\<close>

record media_links =
  download :: string

record media =
  links :: "media_links option"

definition file_name :: "nat \<Rightarrow> string \<Rightarrow> string" where
  "file_name t ext = ''file-'' @ nat_str t @ ''.'' @ ext"

text \<open>\<open>saveFile\<close>. \<open>opt_path\<close> is \<open>options?.path\<close> (\<open>None\<close> when absent): \<open>??\<close> falls
  back to the temporary directory only for an absent path. A download that resolved to
  \<open>undefined\<close> makes the destructuring throw a \<open>TypeError\<close>, caught like every other
  failure: the result is then the string \<open>ERROR\<close>.\<close>

definition saveFile ::
  "'e att_env \<Rightarrow> provider_cfg \<Rightarrow> media option \<Rightarrow> string option \<Rightarrow> file_store \<Rightarrow>
   string \<times> effect list \<times> file_store" where
  "saveFile env cfg ctx_media opt_path fs =
     (let fail = Log (Log_Info ''[Error]:'') in
      case ctx_media of
        None \<Rightarrow> ('''', [], fs)
      | Some m \<Rightarrow>
          (case links m of
             None \<Rightarrow> (''ERROR'', [fail], fs)
           | Some l \<Rightarrow>
               (let (dl, eff) = downloadFile env cfg (download l) in
                case dl of
                  None \<Rightarrow> (''ERROR'', eff @ [fail], fs)
                | Some (buffer, extension) \<Rightarrow>
                    (let dir = (case opt_path of None \<Rightarrow> tmpdir env | Some p \<Rightarrow> p);
                         pathFile = path_join env dir (file_name (now env) extension);
                         wr = Call (Write_File pathFile buffer)
                     in case write_file env pathFile buffer of
                          Inl _ \<Rightarrow> (''ERROR'', eff @ [wr, fail], fs)
                        | Inr _ \<Rightarrow> (pathFile, eff @ [wr], fs(pathFile \<mapsto> buffer))))))"

subsection \<open>Fixtures\<close>

definition sample_env :: "string option \<Rightarrow> unit att_env" where
  "sample_env ct =
     \<lparr>http_get = (\<lambda>_ _. Inr \<lparr>content_type = ct, resp_data = [1, 2, 3]\<rparr>),
      mime_extension = (\<lambda>t. if t = ''image/png'' then Some ''png'' else None),
      write_file = (\<lambda>_ _. Inr ()),
      tmpdir = ''/tmp'', now = 1700000000000,
      path_join = (\<lambda>d f. d @ ''/'' @ f)\<rparr>"

section \<open>Lemmas\<close>

lemma downloadFile_calls:
  "calls (snd (downloadFile env cfg idResource)) =
     [Http_Get (URL_S3 @ ''/'' @ idResource) [(''Token'', cfg_token cfg)]]"
  by (simp add: downloadFile_def Let_def split: sum.split option.split)

lemma downloadFile_Some:
  "fst (downloadFile env cfg idResource) = Some (b, ext) \<longleftrightarrow>
   (\<exists>resp. http_get env (URL_S3 @ ''/'' @ idResource) [(''Token'', cfg_token cfg)] = Inr resp \<and>
          b = resp_data resp \<and> snd (fileTypeFromFile env resp) = Some ext \<and> ext \<noteq> [])"
  by (auto simp: downloadFile_def Let_def split: sum.splits option.splits)

lemma saveFile_cases:
  assumes "saveFile env cfg cm op fs = (r, eff, fs')"
  shows "(fs' = fs \<and> (\<forall>pth b. Write_File pth b \<notin> set (calls eff))) \<or>
         (\<exists>m l b ext. cm = Some m \<and> links m = Some l \<and>
            fst (downloadFile env cfg (download l)) = Some (b, ext) \<and>
            (let pth = path_join env (case op of None \<Rightarrow> tmpdir env | Some p \<Rightarrow> p) (file_name (now env) ext)
             in calls eff = calls (snd (downloadFile env cfg (download l))) @ [Write_File pth b] \<and>
                (fs' = fs \<or> r = pth \<and> fs' = fs(pth \<mapsto> b))))"
proof (cases "\<exists>m l. cm = Some m \<and> links m = Some l")
  case False
  with assms have "fs' = fs \<and> calls eff = []"
    by (cases cm) (auto simp: saveFile_def Let_def split: option.splits)
  then show ?thesis by simp
next
  case True
  then obtain m l where cm: "cm = Some m" and lk: "links m = Some l" by blast
  obtain dl eff0 where dl: "downloadFile env cfg (download l) = (dl, eff0)"
    by (cases "downloadFile env cfg (download l)")
  have c0: "calls eff0 = [Http_Get (URL_S3 @ ''/'' @ download l) [(''Token'', cfg_token cfg)]]"
    using downloadFile_calls [of env cfg "download l"] dl by simp
  show ?thesis
  proof (cases dl)
    case None
    with assms cm lk dl c0 show ?thesis by (auto simp: saveFile_def)
  next
    case (Some be)
    then obtain b ext where "dl = Some (b, ext)" by (cases be) simp
    with assms cm lk dl c0 show ?thesis
      by (auto simp: saveFile_def Let_def split: sum.splits)
  qed
qed

lemma sample_save:
  "saveFile (sample_env (Some ''image/png'')) sample_cfg (Some \<lparr>links = Some \<lparr>download = ''abc123''\<rparr>\<rparr>) None Map.empty =
   (''/tmp/file-1700000000000.png'',
    [Call (Http_Get (URL_S3 @ ''/abc123'') [(''Token'', ''tok-123'')]),
     Call (Write_File ''/tmp/file-1700000000000.png'' [1, 2, 3])],
    Map.empty(''/tmp/file-1700000000000.png'' \<mapsto> [1, 2, 3]))"
proof -
  have nm: "nat_str 1700000000000 = ''1700000000000''"
    by (simp add: nat_str.simps digit_char_def)
  show ?thesis
    by (simp add: saveFile_def downloadFile_def fileTypeFromFile_def sample_env_def sample_cfg_def
                  file_name_def nm Let_def)
qed

subsection \<open>Properties of \<open>downloadFile\<close>\<close>

text \<open>C18. The download is one authenticated request: a GET of the resource id under
  the fixed media base, with the configured token in the \<open>Token\<close> header.\<close>

theorem downloadFile_request:
  "calls (snd (downloadFile env cfg idResource)) =
     [Http_Get (''https://wasapi-assets.s3.us-east-2.amazonaws.com/media/'' @ idResource)
               [(''Token'', cfg_token cfg)]]"
  by (simp add: downloadFile_calls URL_S3_def)

text \<open>C19. A response whose content type has no known extension yields no result: the
  failure is logged and the promise resolves to \<open>undefined\<close>, nothing is thrown.\<close>

theorem downloadFile_unknown_type:
  assumes "http_get env (URL_S3 @ ''/'' @ idResource) [(''Token'', cfg_token cfg)] = Inr resp"
    and "mime_extension env (case content_type resp of None \<Rightarrow> '''' | Some t \<Rightarrow> t) = None"
  shows "downloadFile env cfg idResource =
    (None, [Call (Http_Get (URL_S3 @ ''/'' @ idResource) [(''Token'', cfg_token cfg)]),
            Log (Log_Error ''Unable to determine file extension'')])"
  using assms by (simp add: downloadFile_def fileTypeFromFile_def)

theorem downloadFile_unknown_type_witness:
  "downloadFile (sample_env (Some ''application/x-unknown'')) sample_cfg ''abc123'' =
    (None, [Call (Http_Get (URL_S3 @ ''/abc123'') [(''Token'', ''tok-123'')]),
            Log (Log_Error ''Unable to determine file extension'')])"
proof -
  have "downloadFile (sample_env (Some ''application/x-unknown'')) sample_cfg ''abc123'' =
    (None, [Call (Http_Get (URL_S3 @ ''/'' @ ''abc123'') [(''Token'', cfg_token sample_cfg)]),
            Log (Log_Error ''Unable to determine file extension'')])"
    by (rule downloadFile_unknown_type [where resp = "\<lparr>content_type = Some ''application/x-unknown'', resp_data = [1, 2, 3]\<rparr>"])
       (simp_all add: sample_env_def)
  then show ?thesis by (simp add: sample_cfg_def)
qed

subsection \<open>Properties of \<open>saveFile\<close>\<close>

text \<open>C20. A file is only persisted with a valid extension: whenever \<open>saveFile\<close> writes,
  the download succeeded with a non-empty extension, and the file is
  \<open>file-<now>.<extension>\<close> under the requested directory (the temporary one when
  none is given), holding the downloaded bytes.\<close>

theorem saveFile_persists_only_with_extension:
  assumes "saveFile env cfg cm op fs = (r, eff, fs')" and "Write_File pth b \<in> set (calls eff)"
  shows "\<exists>m l ext. cm = Some m \<and> links m = Some l \<and>
           fst (downloadFile env cfg (download l)) = Some (b, ext) \<and> ext \<noteq> [] \<and>
           pth = path_join env (case op of None \<Rightarrow> tmpdir env | Some p \<Rightarrow> p) (file_name (now env) ext)"
proof -
  from saveFile_cases [OF assms(1)] assms(2) obtain m l b' ext where
    "cm = Some m" "links m = Some l" and dl: "fst (downloadFile env cfg (download l)) = Some (b', ext)"
    and "calls eff = calls (snd (downloadFile env cfg (download l))) @
           [Write_File (path_join env (case op of None \<Rightarrow> tmpdir env | Some p \<Rightarrow> p) (file_name (now env) ext)) b']"
    by (auto simp: Let_def)
  moreover from dl have "ext \<noteq> []" by (auto simp: downloadFile_Some)
  ultimately show ?thesis using assms(2) by (auto simp: downloadFile_calls)
qed

theorem saveFile_persists_only_with_extension_witness:
  "\<exists>m l ext. Some \<lparr>links = Some \<lparr>download = ''abc123''\<rparr>\<rparr> = Some m \<and> links m = Some l \<and>
     fst (downloadFile (sample_env (Some ''image/png'')) sample_cfg (download l)) = Some ([1, 2, 3], ext) \<and>
     ext \<noteq> [] \<and>
     ''/tmp/file-1700000000000.png'' =
       path_join (sample_env (Some ''image/png'')) (case None of None \<Rightarrow> tmpdir (sample_env (Some ''image/png'')) | Some p \<Rightarrow> p)
         (file_name (now (sample_env (Some ''image/png''))) ext)"
proof -
  have "Write_File ''/tmp/file-1700000000000.png'' [1, 2, 3] \<in>
     set (calls [Call (Http_Get (URL_S3 @ ''/abc123'') [(''Token'', ''tok-123'')]),
                 Call (Write_File ''/tmp/file-1700000000000.png'' [1, 2, 3])])"
    by simp
  with sample_save show ?thesis by (rule saveFile_persists_only_with_extension)
qed



text \<open>C22. A failed download (a failed request, or no extension for the content type)
  makes \<open>saveFile\<close> return the string \<open>ERROR\<close>: nothing is written and the store is
  unchanged.\<close>

theorem saveFile_download_failure:
  assumes "cm = Some m" and "links m = Some l" and "fst (downloadFile env cfg (download l)) = None"
  shows "saveFile env cfg cm op fs =
           (''ERROR'', snd (downloadFile env cfg (download l)) @ [Log (Log_Info ''[Error]:'')], fs)"
  using assms by (simp add: saveFile_def split_beta)

theorem saveFile_download_failure_witness:
  "saveFile (sample_env (Some ''text/x-unknown'')) sample_cfg (Some \<lparr>links = Some \<lparr>download = ''abc123''\<rparr>\<rparr>) None Map.empty =
     (''ERROR'', snd (downloadFile (sample_env (Some ''text/x-unknown'')) sample_cfg (download \<lparr>download = ''abc123''\<rparr>)) @
                 [Log (Log_Info ''[Error]:'')],
      Map.empty)"
  by (rule saveFile_download_failure [where m = "\<lparr>links = Some \<lparr>download = ''abc123''\<rparr>\<rparr>"])
     (simp_all add: downloadFile_def fileTypeFromFile_def sample_env_def)

end
