(* ===== verification/Event_Bus.thy ===== *)
theory Event_Bus
  imports Prelude
begin

text \<open>
  The publish/subscribe surface both classes of the provider inherit
  (\<open>EventEmitterClass\<close> of \<open>@builderbot/bot\<close>, which \<open>WasapiEvents\<close> extends and
  \<open>ProviderClass\<close> builds on). It is a library, so it is modelled from the
  specification (\<S>4.5): per topic, a list of handlers in registration order;
  \<open>on\<close> appends a handler, \<open>emit\<close> invokes every current handler of the topic, in
  order, before it returns; nothing is buffered. Handlers are values of a type
  parameter \<open>'h\<close>; an emission is the list of invocations it makes.
  A run of the bus is a sequence of registrations and publications, so that ordering
  questions (late subscribers, replay) are statements about lists of steps.
\<close>

record ('t, 'h) emitter =
  listeners :: "'t \<Rightarrow> 'h list"

definition new_emitter :: "('t, 'h) emitter" where
  "new_emitter = \<lparr>listeners = (\<lambda>_. [])\<rparr>"

definition on :: "'t \<Rightarrow> 'h \<Rightarrow> ('t, 'h) emitter \<Rightarrow> ('t, 'h) emitter" where
  "on t h E = E\<lparr>listeners := (listeners E)(t := listeners E t @ [h])\<rparr>"

definition emit :: "('t, 'h) emitter \<Rightarrow> 't \<Rightarrow> 'p \<Rightarrow> ('h \<times> 'p) list" where
  "emit E t p = map (\<lambda>h. (h, p)) (listeners E t)"

datatype ('t, 'h, 'p) bus_op = On 't 'h | Publish 't 'p

text \<open>A run returns the invocations, in the order they happen, and the final emitter.\<close>

fun bus_run :: "('t, 'h) emitter \<Rightarrow> ('t, 'h, 'p) bus_op list \<Rightarrow> ('h \<times> 'p) list \<times> ('t, 'h) emitter" where
  "bus_run E [] = ([], E)"
| "bus_run E (On t h # ops) = bus_run (on t h E) ops"
| "bus_run E (Publish t p # ops) =
     (let (ds, E') = bus_run E ops in (emit E t p @ ds, E'))"

definition registered :: "'h \<Rightarrow> ('t, 'h) emitter \<Rightarrow> bool" where
  "registered h E \<longleftrightarrow> (\<exists>t. h \<in> set (listeners E t))"

fun registers :: "'h \<Rightarrow> ('t, 'h, 'p) bus_op list \<Rightarrow> bool" where
  "registers h [] = False"
| "registers h (On t h' # ops) = (h' = h \<or> registers h ops)"
| "registers h (Publish t p # ops) = registers h ops"

text \<open>\<open>emit\<close> when a listener throws: the listeners run synchronously in registration
  order, and an exception thrown by one of them ends the emission and propagates to the
  caller of \<open>emit\<close>, so the listeners after it are not invoked. \<open>thr h t p\<close> says whether
  handler \<open>h\<close> throws on payload \<open>p\<close> of topic \<open>t\<close>; the result is the invocations made
  and whether the emission threw.\<close>

fun invoke_until :: "('h \<Rightarrow> bool) \<Rightarrow> 'h list \<Rightarrow> 'h list \<times> bool" where
  "invoke_until thr [] = ([], False)"
| "invoke_until thr (h # hs) =
     (if thr h then ([h], True) else (let (xs, b) = invoke_until thr hs in (h # xs, b)))"

definition emit_throwing :: "('t, 'h) emitter \<Rightarrow> ('h \<Rightarrow> 't \<Rightarrow> 'p \<Rightarrow> bool) \<Rightarrow> 't \<Rightarrow> 'p \<Rightarrow> ('h \<times> 'p) list \<times> bool" where
  "emit_throwing E thr t p =
     (let (hs, threw) = invoke_until (\<lambda>h. thr h t p) (listeners E t) in (map (\<lambda>h. (h, p)) hs, threw))"

lemma listeners_on [simp]:
  "listeners (on t h E) t' = (if t' = t then listeners E t @ [h] else listeners E t')"
  by (simp add: on_def)

lemma listeners_new [simp]: "listeners new_emitter t = []"
  by (simp add: new_emitter_def)

lemma emit_to_listener: "(h, q) \<in> set (emit E t p) \<longleftrightarrow> h \<in> set (listeners E t) \<and> q = p"
  by (auto simp: emit_def)

lemma map_fst_emit [simp]: "map fst (emit E t p) = listeners E t"
  by (simp add: emit_def comp_def)

lemma registered_on: "registered h' (on t h E) \<longleftrightarrow> h' = h \<or> registered h' E"
  by (auto simp: registered_def)

lemma bus_run_unregistered:
  "\<not> registered h E \<Longrightarrow> \<not> registers h ops \<Longrightarrow> h \<notin> fst ` set (fst (bus_run E ops))"
proof (induction E ops rule: bus_run.induct)
  case (1 E)
  then show ?case by simp
next
  case (2 E t h' ops)
  then show ?case by (auto simp: registered_on)
next
  case (3 E t p ops)
  then show ?case
    by (auto simp: emit_def registered_def split: prod.splits)
qed

lemma bus_run_append:
  "bus_run E (xs @ ys) =
     (let (ds, E') = bus_run E xs; (ds', E'') = bus_run E' ys in (ds @ ds', E''))"
  by (induction E xs rule: bus_run.induct) (auto simp: Let_def split: prod.splits)

lemma invoke_until_none: "list_all (\<lambda>h. \<not> thr h) hs \<Longrightarrow> invoke_until thr hs = (hs, False)"
  by (induction hs) auto

lemma invoke_until_first: "list_all (\<lambda>h. \<not> thr h) hs \<Longrightarrow> thr h \<Longrightarrow> invoke_until thr (hs @ h # hs') = (hs @ [h], True)"
  by (induction hs) auto

end
