(* ===== verification/Bridge.thy ===== *)
theory Bridge
  imports Wasapi_Types Event_Bus
begin

text \<open>
  The event bus bridge: \<open>WasapiProvider.busEvents\<close>
  (\<open>src/src/provider/wasapi.provider.ts\<close>, lines 72--95) lists, for the four topics of
  the event surface, the function that republishes a vendor event on the provider.
  \<open>ProviderClass\<close> of \<open>@builderbot/bot\<close> registers each of them on the vendor's
  emitter (\<open>listenOnEvents\<close>, a library step modelled from spec \<S>4.5).

  The handlers of both emitters are values of \<open>handler\<close>: a relay \<open>Relay t f\<close> is
  \<open>payload \<Rightarrow> this.emit(t, f payload)\<close> on the provider, a subscriber \<open>Subscriber n\<close>
  is an external listener, named by a number. An emission on the vendor is the list of
  subscriber invocations it causes, through the relays, in order.
\<close>

section \<open>Definitions\<close>

datatype handler = Relay string "event_payload \<Rightarrow> event_payload" | Subscriber nat

type_synonym bus = "(string, handler) emitter"

definition busEvents :: "(string \<times> (event_payload \<Rightarrow> event_payload)) list" where
  "busEvents =
     [(''auth_failure'', \<lambda>p. p),
      (''ready'', \<lambda>_. Ready_Flag True),
      (''message'', \<lambda>p. p),
      (''host'', \<lambda>p. p)]"

definition listenOnEvents :: "bus \<Rightarrow> bus" where
  "listenOnEvents V = fold (\<lambda>(t, f). on t (Relay t f)) busEvents V"

definition subscribers_of :: "bus \<Rightarrow> string \<Rightarrow> nat list" where
  "subscribers_of P t = concat (map (\<lambda>h. case h of Subscriber n \<Rightarrow> [n] | Relay _ _ \<Rightarrow> []) (listeners P t))"

text \<open>One invocation of a vendor handler for an emission of topic \<open>t\<close>.\<close>

fun dispatch :: "bus \<Rightarrow> string \<Rightarrow> handler \<times> event_payload \<Rightarrow> (nat \<times> string \<times> event_payload) list" where
  "dispatch P t (Relay t' f, p) = map (\<lambda>n. (n, t', f p)) (subscribers_of P t')"
| "dispatch P t (Subscriber n, p) = [(n, t, p)]"

definition vendor_emit :: "bus \<Rightarrow> bus \<Rightarrow> string \<Rightarrow> event_payload \<Rightarrow> (nat \<times> string \<times> event_payload) list" where
  "vendor_emit V P t p = concat (map (dispatch P t) (emit V t p))"

section \<open>Lemmas\<close>

lemma listeners_listenOnEvents:
  "listeners (listenOnEvents V) t =
     listeners V t @ map (\<lambda>(t', f). Relay t' f) (filter (\<lambda>(t', f). t' = t) busEvents)"
  by (simp add: listenOnEvents_def busEvents_def)

lemma subscribers_of_new [simp]: "subscribers_of new_emitter t = []"
  by (simp add: subscribers_of_def)

lemma vendor_emit_listenOnEvents:
  "vendor_emit (listenOnEvents V) P t p =
     vendor_emit V P t p @
     concat (map (\<lambda>(t', f). map (\<lambda>n. (n, t', f p)) (subscribers_of P t')) (filter (\<lambda>(t', f). t' = t) busEvents))"
  by (simp add: vendor_emit_def emit_def listeners_listenOnEvents comp_def split_def)

subsection \<open>Properties of the bridge\<close>

text \<open>C23. Once the bridge is wired, an event of the vendor reaches the provider's
  subscribers of the same topic exactly once each, in registration order, after the
  vendor's own earlier listeners: with the same payload for \<open>message\<close>,
  \<open>auth_failure\<close> and \<open>host\<close>, as the flag \<open>true\<close> for \<open>ready\<close> whatever its payload,
  and not at all for any other topic.\<close>

theorem bridge_relays:
  "vendor_emit (listenOnEvents V) P t p =
     vendor_emit V P t p @
     (if t \<in> {''message'', ''auth_failure'', ''host''} then map (\<lambda>n. (n, t, p)) (subscribers_of P t)
      else if t = ''ready'' then map (\<lambda>n. (n, t, Ready_Flag True)) (subscribers_of P t)
      else [])"
  by (auto simp: vendor_emit_listenOnEvents busEvents_def)

end
