(* ===== verification/Webhook.thy ===== *)
theory Webhook
  imports Normalizer
begin

text \<open>
  The HTTP entry points that hand a webhook payload to \<open>eventInMsg\<close>:
  \<open>WasapiProvider.ctrlInMsg\<close> (\<open>src/src/provider/wasapi.provider.ts\<close>, lines
  109--112) and the route of the example \<open>registerWasapiWebhook\<close>
  (\<open>src/examples/events/wasapiWebhook.ts/wasapiWebhook.ts\<close>, lines 9--19).

  Both call the \<open>async\<close> handler without \<open>await\<close>. Calling an async function never
  throws: the call runs the body synchronously up to its first \<open>await\<close> and returns a
  promise that carries every later outcome, a rejection included (\<open>call_async\<close>). Every
  SDK call of the handler is awaited as soon as it is made, so the synchronous part of a
  run is its effects up to and including the first call (\<open>split_at_await\<close>); the rest
  happens after the route has answered.
\<close>

section \<open>Definitions\<close>

datatype reply_body = Text string | Json_Success | Json_Failure string

datatype http_reply = Reply nat reply_body

fun split_at_await :: "effect list \<Rightarrow> effect list \<times> effect list" where
  "split_at_await [] = ([], [])"
| "split_at_await (Call c # es) = ([Call c], es)"
| "split_at_await (e # es) = (let (a, b) = split_at_await es in (e # a, b))"

text \<open>The result of calling an async function: a synchronous exception (\<open>Inl\<close>) never
  happens; the run is in the returned promise.\<close>

definition call_async :: "('e js_error + 'a) out \<Rightarrow> 'e js_error + ('e js_error + 'a) out" where
  "call_async run = Inr run"

text \<open>\<open>String(err)\<close> for the errors the handler can raise.\<close>

fun js_error_text :: "'e js_error \<Rightarrow> string" where
  "js_error_text (Type_Error m) = ''TypeError: '' @ m"
| "js_error_text (Plain_Error m) = ''Error: '' @ m"
| "js_error_text (Client_Error _) = ''Error''"

text \<open>\<open>ctrlInMsg\<close>: the reply, the effects before it, the effects after it, and whether
  the dropped promise rejects (an unhandled rejection); \<open>req_body\<close> is \<open>req.body\<close>.\<close>

definition ctrlInMsg ::
  "(string \<Rightarrow> string) \<Rightarrow> (string \<Rightarrow> 'e + contact option) \<Rightarrow> wasapi_message \<Rightarrow>
   http_reply \<times> effect list \<times> effect list \<times> bool" where
  "ctrlInMsg gen getById req_body =
     (let (r, eff) = eventInMsg gen getById req_body;
          (pre, post) = split_at_await eff
      in (Reply 200 (Text ''ok''), pre, post, isl r))"

text \<open>The example's route: \<open>try { eventInMsg(payload); 200 } catch { 500 }\<close>.\<close>

definition example_route ::
  "(string \<Rightarrow> string) \<Rightarrow> (string \<Rightarrow> 'e + contact option) \<Rightarrow> wasapi_message \<Rightarrow>
   http_reply \<times> effect list \<times> effect list" where
  "example_route gen getById payload =
     (case call_async (eventInMsg gen getById payload) of
        Inl err \<Rightarrow>
          (Reply 500 (Json_Failure (js_error_text err)),
           [Log (Log_Error ''Error procesando webhook Wasapi:'')], [])
      | Inr (r, eff) \<Rightarrow>
          (let (pre, post) = split_at_await eff in (Reply 200 Json_Success, pre, post)))"

section \<open>Lemmas\<close>

lemma split_at_await_append: "split_at_await es = (a, b) \<Longrightarrow> a @ b = es"
  by (induction es arbitrary: a b rule: split_at_await.induct) (auto split: prod.splits)

lemma split_at_await_calls:
  "split_at_await es = (a, b) \<Longrightarrow> length (calls a) \<le> 1"
  by (induction es arbitrary: a b rule: split_at_await.induct) (auto split: prod.splits)

lemma split_at_await_getName:
  "split_at_await (snd (getName getById w) @ rest) =
     ([Call (Get_Contact w)], tl (snd (getName getById w)) @ rest)"
  by (auto simp: getName_def Let_def split: sum.split option.split)

lemma eventInMsg_first_effect:
  "snd (eventInMsg gen getById p) = [] \<or>
   (\<exists>w rest. snd (eventInMsg gen getById p) = Call (Get_Contact w) # rest)"
  by (auto simp: eventInMsg_def getName_def Let_def split_beta split: option.splits sum.splits)

lemma split_at_await_first_call:
  "es = [] \<or> (\<exists>c rest. es = Call c # rest) \<Longrightarrow>
   emits (fst (split_at_await es)) = [] \<and> fst (split_at_await es) @ snd (split_at_await es) = es"
  by auto

lemma ctrlInMsg_kept:
  assumes "data p = Some d" "type d = Some ''in''" "wa_id d = Some w"
    and "\<not> str_includes w ''g.us''" and "from_id d = Some fid"
  shows "ctrlInMsg gen getById p =
    (Reply 200 (Text ''ok''), [Call (Get_Contact w)],
     tl (snd (getName getById w)) @
       [Emit ''message'' (Msg_Event
          \<lparr>body = classify_body gen (message_type d) (js_or_str (message d) ''''),
           from' = w, name = fst (getName getById w),
           host = \<lparr>phone = int_str fid\<rparr>, raw = p\<rparr>)], False)"
  by (simp add: ctrlInMsg_def eventInMsg_kept [OF assms] split_at_await_getName)

lemma emits_tl_getName [simp]: "emits (tl (snd (getName getById w))) = []"
  by (auto simp: getName_def Let_def split: sum.split option.split)

lemma example_route_kept:
  assumes "data p = Some d" "type d = Some ''in''" "wa_id d = Some w"
    and "\<not> str_includes w ''g.us''" and "from_id d = Some fid"
  shows "example_route gen getById p =
    (Reply 200 Json_Success, [Call (Get_Contact w)],
     tl (snd (getName getById w)) @
       [Emit ''message'' (Msg_Event
          \<lparr>body = classify_body gen (message_type d) (js_or_str (message d) ''''),
           from' = w, name = fst (getName getById w),
           host = \<lparr>phone = int_str fid\<rparr>, raw = p\<rparr>)])"
  by (simp add: example_route_def call_async_def eventInMsg_kept [OF assms] split_at_await_getName)

subsection \<open>Properties of the routes\<close>

text \<open>C26. \<open>ctrlInMsg\<close> answers \<open>200 ok\<close> for every payload, before any event is
  emitted: the synchronous part of the handler emits nothing, and all of its effects
  (the event included) happen in program order, around the reply.\<close>

theorem ctrlInMsg_replies_first:
  "fst (ctrlInMsg gen getById p) = Reply 200 (Text ''ok'') \<and>
   emits (fst (snd (ctrlInMsg gen getById p))) = [] \<and>
   fst (snd (ctrlInMsg gen getById p)) @ fst (snd (snd (ctrlInMsg gen getById p))) =
     snd (eventInMsg gen getById p) \<and>
   snd (snd (snd (ctrlInMsg gen getById p))) = isl (fst (eventInMsg gen getById p))"
proof -
  have "snd (eventInMsg gen getById p) = [] \<or> (\<exists>c rest. snd (eventInMsg gen getById p) = Call c # rest)"
    using eventInMsg_first_effect [of gen getById p] by blast
  from split_at_await_first_call [OF this] show ?thesis
    by (simp add: ctrlInMsg_def split_beta)
qed


end
