(* ===== verification/Deliveries.thy ===== *)
theory Deliveries
  imports Webhook "HOL-Library.Multiset"
begin

text \<open>
  Concurrent webhook deliveries (spec \<S>5): each POST to \<open>/webhook/wasapi\<close> runs
  \<open>ctrlInMsg\<close> (\<open>src/src/provider/wasapi.provider.ts\<close>, lines 109--112), whose handler
  \<open>eventInMsg\<close> runs synchronously up to its first \<open>await\<close>, the reply is sent, and the
  rest of the handler is a continuation the event loop resumes later, one synchronous
  segment (up to the next awaited call) at a time. Deliveries in flight interleave at
  those points in any order.

  \<open>delivery_step\<close> is that scheduler as an inductive relation on \<open>sched\<close>: the
  deliveries that have arrived (an identifier and the payload), the continuations in
  flight, and the observations so far (effects and replies, tagged by delivery).
\<close>

section \<open>Definitions\<close>

datatype obs = Eff effect | Replied http_reply

record sched =
  arrived :: "(nat \<times> wasapi_message) list"
  inflight :: "(nat \<times> effect list) list"
  observed :: "(nat \<times> obs) list"



definition tag :: "nat \<Rightarrow> 'a list \<Rightarrow> (nat \<times> 'a) list" where
  "tag i xs = map (\<lambda>x. (i, x)) xs"

definition proj :: "nat \<Rightarrow> (nat \<times> 'a) list \<Rightarrow> 'a list" where
  "proj i xs = map snd (filter (\<lambda>(j, _). j = i) xs)"

definition pending_of :: "nat \<Rightarrow> (nat \<times> effect list) list \<Rightarrow> effect list" where
  "pending_of i xs = concat (proj i xs)"

inductive delivery_step ::
  "(string \<Rightarrow> string) \<Rightarrow> (string \<Rightarrow> 'e + contact option) \<Rightarrow> sched \<Rightarrow> sched \<Rightarrow> bool"
  for gen getById where
  arrive: "i \<notin> fst ` set (arrived s) \<Longrightarrow> ctrlInMsg gen getById p = (r, pre, post, rej) \<Longrightarrow>
    delivery_step gen getById s
      \<lparr>arrived = arrived s @ [(i, p)], inflight = inflight s @ [(i, post)],
       observed = observed s @ tag i (map Eff pre @ [Replied r])\<rparr>"
| resume: "inflight s = xs @ (i, es) # ys \<Longrightarrow> es \<noteq> [] \<Longrightarrow> split_at_await es = (seg, rest) \<Longrightarrow>
    delivery_step gen getById s
      \<lparr>arrived = arrived s, inflight = xs @ (i, rest) # ys, observed = observed s @ tag i (map Eff seg)\<rparr>"


definition work :: "sched \<Rightarrow> nat" where
  "work s = sum_list (map (length \<circ> snd) (inflight s))"






text \<open>One turn of the event loop with every pending lookup settled: the first delivery
  (in arrival order) that still has a continuation is resumed by one synchronous segment;
  \<open>None\<close> when nothing is in flight.\<close>

fun first_pending ::
  "(nat \<times> effect list) list \<Rightarrow> ((nat \<times> effect list) list \<times> nat \<times> effect list \<times> (nat \<times> effect list) list) option" where
  "first_pending [] = None"
| "first_pending ((i, es) # ys) =
     (if es = [] then map_option (\<lambda>(xs, j, fs, zs). ((i, es) # xs, j, fs, zs)) (first_pending ys)
      else Some ([], i, es, ys))"

definition resume_first :: "sched \<Rightarrow> sched option" where
  "resume_first s =
     (case first_pending (inflight s) of
        None \<Rightarrow> None
      | Some (xs, i, es, ys) \<Rightarrow>
          (let (seg, rest) = split_at_await es
           in Some \<lparr>arrived = arrived s, inflight = xs @ (i, rest) # ys,
                    observed = observed s @ tag i (map Eff seg)\<rparr>))"

section \<open>Lemmas\<close>

lemma proj_append [simp]: "proj i (xs @ ys) = proj i xs @ proj i ys"
  by (simp add: proj_def)

lemma proj_Cons [simp]: "proj i ((j, x) # xs) = (if j = i then x # proj i xs else proj i xs)"
  by (simp add: proj_def)

lemma proj_Nil [simp]: "proj i [] = []"
  by (simp add: proj_def)

lemma proj_tag [simp]: "proj i (tag j xs) = (if j = i then xs else [])"
  by (induction xs) (auto simp: tag_def)

lemma mem_tag [simp]: "(j, x) \<in> set (tag i xs) \<longleftrightarrow> j = i \<and> x \<in> set xs"
  by (auto simp: tag_def)


lemma pending_of_simps [simp]:
  "pending_of i [] = []"
  "pending_of i ((j, es) # xs) = (if j = i then es @ pending_of i xs else pending_of i xs)"
  "pending_of i (xs @ ys) = pending_of i xs @ pending_of i ys"
  by (simp_all add: pending_of_def)


lemma split_at_await_nonempty: "split_at_await es = (seg, rest) \<Longrightarrow> es \<noteq> [] \<Longrightarrow> seg \<noteq> []"
  by (cases es rule: split_at_await.cases) (auto split: prod.splits)

lemma split_at_await_shorter: "split_at_await es = (seg, rest) \<Longrightarrow> es \<noteq> [] \<Longrightarrow> length rest < length es"
  using split_at_await_append [of es seg rest] split_at_await_nonempty [of es seg rest] by auto













lemma first_pending_Some:
  "first_pending xs = Some (ys, i, es, zs) \<Longrightarrow> xs = ys @ (i, es) # zs \<and> es \<noteq> []"
  by (induction xs arbitrary: ys rule: first_pending.induct) (auto split: if_splits)

lemma first_pending_None: "first_pending xs = None \<longleftrightarrow> list_all (\<lambda>(_, es). es = []) xs"
  by (induction xs rule: first_pending.induct) auto

lemma resume_first_work: "resume_first s = Some t \<Longrightarrow> work t < work s"
  by (auto simp: resume_first_def work_def split: option.splits prod.splits
           dest!: first_pending_Some split_at_await_shorter)

lemma resume_first_step:
  "resume_first s = Some t \<Longrightarrow> delivery_step gen getById s t"
  by (auto simp: resume_first_def split: option.splits prod.splits
           dest!: first_pending_Some intro: resume)

subsection \<open>Properties of concurrent deliveries\<close>









end
