(* ===== verification/Startup.thy ===== *)
theory Startup
  imports Device_Status Provider Event_Bus
begin

text \<open>
  Start-up of the provider: the \<open>WasapiEvents\<close> vendor
  (\<open>src/src/provider/wasapi.events.ts\<close>, lines 34--47 and 80--82: an event emitter
  holding the token and a Wasapi SDK client built from it, handed out by \<open>getClient\<close>),
  and \<open>WasapiProvider.initVendor\<close> (\<open>src/src/provider/wasapi.provider.ts\<close>, lines
  46--53), which creates the vendor, stores it in \<open>this.vendor\<close>, registers the webhook
  route on the HTTP server and awaits \<open>checkStatus\<close>.

  The provider's state is a record: its configuration, \<open>this.vendor\<close>, the routes of
  \<open>this.server\<close> and the provider's own emitter, on which \<open>checkStatus\<close> emits
  (\<open>this.emit\<close>). The SDK call \<open>getWhatsappNumbers\<close> is a parameter that receives the
  client it is called on, so the model records which token authenticates it. The handler
  types of both emitters are type variables. Whether the check's emissions throw can be
  read off the provider's own listeners (\<open>bus_throws\<close>, through
  \<open>Event_Bus.emit_throwing\<close>). The empty hooks \<open>beforeHttpServerInit\<close> and
  \<open>afterHttpServerInit\<close> (lines 59--60 and 66--67) leave the state unchanged.
\<close>

section \<open>Definitions\<close>

text \<open>The SDK's \<open>WasapiClient\<close>, as far as this code uses it: the token it is built with.\<close>

record wasapi_client =
  client_token :: string

record 'h wasapi_events =
  ev_bus :: "(string, 'h) emitter"
  ev_token :: string
  ev_client :: wasapi_client

text \<open>\<open>constructor(token) { super(); this.token = token; this.wasapiClient = new WasapiClient(token) }\<close>\<close>

definition new_WasapiEvents :: "string \<Rightarrow> 'h wasapi_events" where
  "new_WasapiEvents token =
     \<lparr>ev_bus = new_emitter, ev_token = token, ev_client = \<lparr>client_token = token\<rparr>\<rparr>"

definition getClient :: "'h wasapi_events \<Rightarrow> wasapi_client" where
  "getClient v = ev_client v"

record ('h, 'p) provider_state =
  ps_cfg :: provider_cfg
  ps_vendor :: "'h wasapi_events option"
  ps_routes :: "(string \<times> string) list"
  ps_bus :: "(string, 'p) emitter"

definition webhook_route :: "string \<times> string" where
  "webhook_route = (''POST'', ''/webhook/wasapi'')"

text \<open>\<open>checkStatus\<close> as the provider runs it: \<open>this.vendor.getClient()\<close> throws when no
  vendor is set (then the SDK outcome is never read); otherwise the SDK call is made on the
  vendor's client.\<close>

definition checkStatus_on ::
  "(wasapi_client \<Rightarrow> 'e + numbers_response) \<Rightarrow> (string \<Rightarrow> event_payload \<Rightarrow> bool) \<Rightarrow>
   ('h, 'p) provider_state \<Rightarrow> string \<Rightarrow> ('e js_error + unit) out" where
  "checkStatus_on getNumbers throws st dev =
     (case ps_vendor st of
        None \<Rightarrow> checkStatus False (Inr \<lparr>numbers = None\<rparr>) throws dev
      | Some v \<Rightarrow> checkStatus True (getNumbers (getClient v)) throws dev)"

text \<open>\<open>initVendor\<close>: its outcome (the vendor, or the rejection of the awaited check), the
  effects of the check, and the provider's new state.\<close>

definition initVendor ::
  "(wasapi_client \<Rightarrow> 'e + numbers_response) \<Rightarrow> (string \<Rightarrow> event_payload \<Rightarrow> bool) \<Rightarrow>
   ('h, 'p) provider_state \<Rightarrow>
   ('e js_error + 'h wasapi_events) \<times> effect list \<times> ('h, 'p) provider_state" where
  "initVendor getNumbers throws st =
     (let vendor = new_WasapiEvents (cfg_token (ps_cfg st));
          st1 = st\<lparr>ps_vendor := Some vendor\<rparr>;
          st2 = st1\<lparr>ps_routes := ps_routes st1 @ [webhook_route]\<rparr>;
          (r, eff) = checkStatus_on getNumbers throws st2 (cfg_deviceId (ps_cfg st2))
      in ((case r of Inl e \<Rightarrow> Inl e | Inr _ \<Rightarrow> Inr vendor), eff, st2))"

text \<open>The two hooks the library calls around the HTTP server's start; both bodies are empty.\<close>

definition beforeHttpServerInit :: "('h, 'p) provider_state \<Rightarrow> ('h, 'p) provider_state" where
  "beforeHttpServerInit st = st"

definition afterHttpServerInit :: "('h, 'p) provider_state \<Rightarrow> ('h, 'p) provider_state" where
  "afterHttpServerInit st = st"

text \<open>The invocations of the provider's listeners that a list of effects causes.\<close>

definition provider_deliveries :: "('h, 'p) provider_state \<Rightarrow> effect list \<Rightarrow> ('p \<times> event_payload) list" where
  "provider_deliveries st eff = concat (map (\<lambda>(t, p). emit (ps_bus st) t p) (emits eff))"

text \<open>The provider's listeners as the library runs them: whether an emission throws, and
  the invocations a list of effects makes when each emission stops at the first listener
  that throws.\<close>

definition bus_throws :: "('h, 'p) provider_state \<Rightarrow> ('p \<Rightarrow> string \<Rightarrow> event_payload \<Rightarrow> bool) \<Rightarrow> string \<Rightarrow> event_payload \<Rightarrow> bool" where
  "bus_throws st thr t p = snd (emit_throwing (ps_bus st) thr t p)"

definition provider_invocations ::
  "('h, 'p) provider_state \<Rightarrow> ('p \<Rightarrow> string \<Rightarrow> event_payload \<Rightarrow> bool) \<Rightarrow> effect list \<Rightarrow> ('p \<times> event_payload) list" where
  "provider_invocations st thr eff = concat (map (\<lambda>(t, p). fst (emit_throwing (ps_bus st) thr t p)) (emits eff))"

subsection \<open>Fixtures\<close>

definition sample_state :: "(unit, unit) provider_state" where
  "sample_state = \<lparr>ps_cfg = \<lparr>cfg_name = Some ''bot'', cfg_port = Some 3000, cfg_token = ''tok-123'', cfg_deviceId = ''4021''\<rparr>,
                   ps_vendor = None, ps_routes = [], ps_bus = on ''ready'' () new_emitter\<rparr>"

definition sample_bus_state :: "(unit, nat) provider_state" where
  "sample_bus_state =
     \<lparr>ps_cfg = ps_cfg sample_state, ps_vendor = None, ps_routes = [],
      ps_bus = on ''auth_failure'' 9 (on ''ready'' 3 (on ''ready'' 2 (on ''ready'' 1 new_emitter)))\<rparr>"

section \<open>Lemmas\<close>


lemma initVendor_eq:
  "initVendor getNumbers throws st =
     (let v = new_WasapiEvents (cfg_token (ps_cfg st));
          (r, eff) = checkStatus True (getNumbers \<lparr>client_token = cfg_token (ps_cfg st)\<rparr>) throws
                       (cfg_deviceId (ps_cfg st))
      in ((case r of Inl e \<Rightarrow> Inl e | Inr _ \<Rightarrow> Inr v), eff,
          st\<lparr>ps_vendor := Some v, ps_routes := ps_routes st @ [webhook_route]\<rparr>))"
  by (simp add: initVendor_def checkStatus_on_def getClient_def new_WasapiEvents_def Let_def split_def)

subsection \<open>Properties of the start-up\<close>

text \<open>C32. A start-up whose device list (requested on a client built with the configured
  token) contains the configured device resolves with the new vendor, invokes each of the
  provider's \<open>ready\<close> listeners exactly once, and leaves the webhook route registered.\<close>

theorem initVendor_ready:
  assumes "getNumbers \<lparr>client_token = cfg_token (ps_cfg st)\<rparr> = Inr resp" "numbers resp = Some ds"
    and "\<exists>d\<in>set ds. int_str (num_id d) = cfg_deviceId (ps_cfg st)" and "\<forall>t p. \<not> throws t p"
  shows "fst (initVendor getNumbers throws st) = Inr (new_WasapiEvents (cfg_token (ps_cfg st))) \<and>
         provider_deliveries st (fst (snd (initVendor getNumbers throws st))) =
           map (\<lambda>h. (h, No_Payload)) (listeners (ps_bus st) ''ready'') \<and>
         ps_routes (snd (snd (initVendor getNumbers throws st))) = ps_routes st @ [webhook_route]"
proof -
  obtain d where "find_device (cfg_deviceId (ps_cfg st)) ds = Some d"
    using assms(3) find_device_Some_iff by blast
  with assms have "checkStatus True (getNumbers \<lparr>client_token = cfg_token (ps_cfg st)\<rparr>) throws (cfg_deviceId (ps_cfg st)) =
    (Inr (), [Call Get_Numbers,
              Log (Log_Info (''Device '' @ cfg_deviceId (ps_cfg st) @ '' found: '' @ display_name d @ '' ('' @ phone_number d @ '')'')),
              Emit ''ready'' No_Payload])"
    by (simp add: checkStatus_found_eq)
  then show ?thesis
    by (simp add: initVendor_eq provider_deliveries_def emit_def Let_def)
qed

text \<open>C33. A start-up whose status check rejects (a listener threw inside the check's
  \<open>catch\<close>) rejects with the same error, yet the vendor is already stored and the
  webhook route already registered: the server accepts webhooks after a failed start.\<close>

theorem initVendor_failed_start:
  assumes "fst (checkStatus True (getNumbers \<lparr>client_token = cfg_token (ps_cfg st)\<rparr>) throws (cfg_deviceId (ps_cfg st))) = Inl e"
  shows "fst (initVendor getNumbers throws st) = Inl e \<and>
         ps_vendor (snd (snd (initVendor getNumbers throws st))) = Some (new_WasapiEvents (cfg_token (ps_cfg st))) \<and>
         webhook_route \<in> set (ps_routes (snd (snd (initVendor getNumbers throws st))))"
  using assms by (simp add: initVendor_eq split_def)

theorem initVendor_ready_witness:
  "fst (initVendor (\<lambda>_. Inr \<lparr>numbers = Some [sample_number]\<rparr> :: unit + numbers_response) (\<lambda>_ _. False) sample_state) =
     Inr (new_WasapiEvents ''tok-123'') \<and>
   provider_deliveries sample_state (fst (snd (initVendor (\<lambda>_. Inr \<lparr>numbers = Some [sample_number]\<rparr> :: unit + numbers_response) (\<lambda>_ _. False) sample_state))) =
     [((), No_Payload)] \<and>
   ps_routes (snd (snd (initVendor (\<lambda>_. Inr \<lparr>numbers = Some [sample_number]\<rparr> :: unit + numbers_response) (\<lambda>_ _. False) sample_state))) =
     [webhook_route]"
  using initVendor_ready [where st = sample_state and resp = "\<lparr>numbers = Some [sample_number]\<rparr>" and ds = "[sample_number]"
                          and getNumbers = "\<lambda>_. Inr \<lparr>numbers = Some [sample_number]\<rparr> :: unit + numbers_response"
                          and throws = "\<lambda>_ _. False"]
  by (simp add: sample_state_def sample_number_id)

theorem initVendor_failed_start_witness:
  "fst (initVendor (\<lambda>_. Inl () :: unit + numbers_response) (\<lambda>_ _. True) sample_state) = Inl (Plain_Error ''listener error'') \<and>
   ps_vendor (snd (snd (initVendor (\<lambda>_. Inl () :: unit + numbers_response) (\<lambda>_ _. True) sample_state))) =
     Some (new_WasapiEvents ''tok-123'') \<and>
   webhook_route \<in> set (ps_routes (snd (snd (initVendor (\<lambda>_. Inl () :: unit + numbers_response) (\<lambda>_ _. True) sample_state))))"
  using initVendor_failed_start [where st = sample_state and getNumbers = "\<lambda>_. Inl () :: unit + numbers_response"
                                 and throws = "\<lambda>_ _. True" and e = "Plain_Error ''listener error''"]
  by (simp add: sample_state_def checkStatus_def check_catch_def)

text \<open>C25. With the provider's real listeners: when the configured device is listed but
  one of the \<open>ready\<close> listeners throws, the listeners registered before it and itself get
  \<open>ready\<close>, those after it never do, and the check's \<open>catch\<close> then sends every
  \<open>auth_failure\<close> listener the generic instructions; start-up still resolves.\<close>

theorem initVendor_ready_listener_throws:
  assumes "getNumbers \<lparr>client_token = cfg_token (ps_cfg st)\<rparr> = Inr resp" "numbers resp = Some ds"
    and "\<exists>d\<in>set ds. int_str (num_id d) = cfg_deviceId (ps_cfg st)"
    and "listeners (ps_bus st) ''ready'' = earlier @ h # later"
    and "list_all (\<lambda>x. \<not> thr x ''ready'' No_Payload) earlier" and "thr h ''ready'' No_Payload"
    and "list_all (\<lambda>x. \<not> thr x ''auth_failure'' (Auth_Failure generic_instructions)) (listeners (ps_bus st) ''auth_failure'')"
  shows "fst (initVendor getNumbers (bus_throws st thr) st) = Inr (new_WasapiEvents (cfg_token (ps_cfg st))) \<and>
         provider_invocations st thr (fst (snd (initVendor getNumbers (bus_throws st thr) st))) =
           map (\<lambda>x. (x, No_Payload)) (earlier @ [h]) @
           map (\<lambda>x. (x, Auth_Failure generic_instructions)) (listeners (ps_bus st) ''auth_failure'')"
proof -
  obtain d where d: "find_device (cfg_deviceId (ps_cfg st)) ds = Some d"
    using assms(3) find_device_Some_iff by blast
  have ready: "emit_throwing (ps_bus st) thr ''ready'' No_Payload = (map (\<lambda>x. (x, No_Payload)) (earlier @ [h]), True)"
    using assms(4-6) by (simp add: emit_throwing_def invoke_until_first)
  have auth: "emit_throwing (ps_bus st) thr ''auth_failure'' (Auth_Failure generic_instructions) =
      (map (\<lambda>x. (x, Auth_Failure generic_instructions)) (listeners (ps_bus st) ''auth_failure''), False)"
    using assms(7) by (simp add: emit_throwing_def invoke_until_none)
  have "bus_throws st thr ''ready'' No_Payload" "\<not> bus_throws st thr ''auth_failure'' (Auth_Failure generic_instructions)"
    using ready auth by (simp_all add: bus_throws_def)
  with assms(1,2) d show ?thesis
    by (simp add: initVendor_eq checkStatus_found_throwing provider_invocations_def ready auth Let_def)
qed

theorem initVendor_ready_listener_throws_witness:
  "fst (initVendor (\<lambda>_. Inr \<lparr>numbers = Some [sample_number]\<rparr> :: unit + numbers_response)
          (bus_throws sample_bus_state (\<lambda>h t _. h = 2 \<and> t = ''ready'')) sample_bus_state) =
     Inr (new_WasapiEvents ''tok-123'') \<and>
   provider_invocations sample_bus_state (\<lambda>h t _. h = 2 \<and> t = ''ready'')
     (fst (snd (initVendor (\<lambda>_. Inr \<lparr>numbers = Some [sample_number]\<rparr> :: unit + numbers_response)
          (bus_throws sample_bus_state (\<lambda>h t _. h = 2 \<and> t = ''ready'')) sample_bus_state))) =
     [(1, No_Payload), (2, No_Payload), (9, Auth_Failure generic_instructions)]"
  using initVendor_ready_listener_throws
          [where st = sample_bus_state and resp = "\<lparr>numbers = Some [sample_number]\<rparr>" and ds = "[sample_number]"
             and getNumbers = "\<lambda>_. Inr \<lparr>numbers = Some [sample_number]\<rparr> :: unit + numbers_response"
             and thr = "\<lambda>h t _. h = 2 \<and> t = ''ready''" and earlier = "[1]" and h = 2 and later = "[3]"]
  by (simp add: sample_bus_state_def sample_state_def sample_number_id)

end
