(* ===== verification/Example_App.thy ===== *)
theory Example_App
  imports Webhook Startup
begin

text \<open>
  The example server of \<open>src/examples/events/wasapiWebhook.ts/\<close>: \<open>index.ts\<close> (lines
  6--17) reads \<open>PORT\<close> and \<open>API_KEY_WASAPI\<close> from the environment (after
  \<open>dotenv.config()\<close>), installs the JSON body parser, calls \<open>registerWasapiWebhook\<close>
  and listens; \<open>registerWasapiWebhook\<close> (\<open>wasapiWebhook.ts\<close>, lines 5--31) creates a
  \<open>WasapiEvents\<close> with the key, registers the route of \<open>Webhook.example_route\<close> and a
  listener of \<open>message\<close> that prints the adapted message (lines 22--28).

  The environment is a function from variable names to optional strings; the express
  application is a record of its middlewares, its routes and the port it listens on. A
  console line is the text written, as bytes: the two non-ASCII characters of the
  listener's output, the mailbox emoji and the \<open>u\<close> with an acute accent, are written
  as their UTF-8 encodings.
\<close>

section \<open>Definitions\<close>

record express_app =
  app_middlewares :: "string list"
  app_routes :: "(string \<times> string) list"
  app_port :: "string option"

definition mailbox_emoji :: string where
  "mailbox_emoji = [CHR 0xF0, CHR 0x9F, CHR 0x93, CHR 0xA9]"

text \<open>How \<open>console.log\<close> prints an optional string: \<open>undefined\<close> when absent.\<close>

fun js_show_opt :: "string option \<Rightarrow> string" where
  "js_show_opt None = ''undefined''"
| "js_show_opt (Some s) = s"

text \<open>The listener of lines 22--28, on the payload of a \<open>message\<close> event (the only
  payload \<open>eventInMsg\<close> emits there is a normalized event).\<close>

fun example_listener :: "event_payload \<Rightarrow> effect list" where
  "example_listener (Msg_Event msg) =
     [Log (Log_Info (mailbox_emoji @ '' Mensaje adaptado recibido:'')),
      Log (Log_Info (''Nombre Cliente: '' @ js_show_opt (name msg))),
      Log (Log_Info (''De: '' @ from' msg)),
      Log (Log_Info (''Cuerpo: '' @ body msg)),
      Log (Log_Info (''N'' @ [CHR 0xC3, CHR 0xBA] @ ''mero host: '' @ phone (host msg)))]"
| "example_listener _ =
     [Log (Log_Info (mailbox_emoji @ '' Mensaje adaptado recibido:'')),
      Log (Log_Info ''Nombre Cliente: undefined''), Log (Log_Info ''De: undefined''),
      Log (Log_Info ''Cuerpo: undefined''),
      Log (Log_Info (''N'' @ [CHR 0xC3, CHR 0xBA] @ ''mero host: undefined''))]"

type_synonym example_events = "(event_payload \<Rightarrow> effect list) wasapi_events"

definition registerWasapiWebhook :: "express_app \<Rightarrow> string \<Rightarrow> express_app \<times> example_events" where
  "registerWasapiWebhook app apiKey =
     (let wasapiEvents = new_WasapiEvents apiKey;
          app' = app\<lparr>app_routes := app_routes app @ [webhook_route]\<rparr>;
          wasapiEvents' = wasapiEvents\<lparr>ev_bus := on ''message'' example_listener (ev_bus wasapiEvents)\<rparr>
      in (app', wasapiEvents'))"

text \<open>\<open>index.ts\<close>: the application, the events object, and the line the \<open>listen\<close>
  callback prints.\<close>

definition bootstrap :: "(string \<Rightarrow> string option) \<Rightarrow> express_app \<times> example_events \<times> effect list" where
  "bootstrap env =
     (let PORT = js_or_str (env ''PORT'') ''3000'';
          app = \<lparr>app_middlewares = [''json''], app_routes = [], app_port = None\<rparr>;
          (app1, wasapiEvents) = registerWasapiWebhook app (js_or_str (env ''API_KEY_WASAPI'') '''');
          app2 = app1\<lparr>app_port := Some PORT\<rparr>
      in (app2, wasapiEvents, [Log (Log_Info (''Servidor escuchando en http://localhost:'' @ PORT))]))"

text \<open>The effects of the listeners of the example's events object, for the emissions
  among a list of effects.\<close>

definition listener_effects :: "example_events \<Rightarrow> effect list \<Rightarrow> effect list" where
  "listener_effects we eff =
     concat (map (\<lambda>(t, p). concat (map (\<lambda>(h, q). h q) (emit (ev_bus we) t p))) (emits eff))"

section \<open>Lemmas\<close>


lemma bootstrap_events:
  "fst (snd (bootstrap env)) =
     (new_WasapiEvents (js_or_str (env ''API_KEY_WASAPI'') '''') :: example_events)
       \<lparr>ev_bus := on ''message'' example_listener new_emitter\<rparr>"
  by (simp add: bootstrap_def registerWasapiWebhook_def Let_def split_def new_WasapiEvents_def)

subsection \<open>Properties of the example server\<close>



text \<open>C35. An inbound message from a chat that is not a group, posted to the example
  server, is answered \<open>200 {success: true}\<close>, and once the contact lookup (made with the
  server's own client) settles, the example's listener prints the banner, the contact name,
  the chat, the specification's body and the sender device id, in that order.\<close>

theorem example_prints_event:
  assumes "data p = Some d" "type d = Some ''in''" "wa_id d = Some w"
    and "\<not> str_includes w ''g.us''" and "from_id d = Some fid"
  shows "fst (example_route gen (lookup (getClient (fst (snd (bootstrap env))))) p) = Reply 200 Json_Success \<and>
         listener_effects (fst (snd (bootstrap env)))
           (snd (snd (example_route gen (lookup (getClient (fst (snd (bootstrap env))))) p))) =
         [Log (Log_Info (mailbox_emoji @ '' Mensaje adaptado recibido:'')),
          Log (Log_Info (''Nombre Cliente: '' @
            js_show_opt (fst (getName (lookup \<lparr>client_token = js_or_str (env ''API_KEY_WASAPI'') ''''\<rparr>) w)))),
          Log (Log_Info (''De: '' @ w)),
          Log (Log_Info (''Cuerpo: '' @ spec_body gen (message_type d) (message d))),
          Log (Log_Info (''N'' @ [CHR 0xC3, CHR 0xBA] @ ''mero host: '' @ int_str fid))]"
  using classify_body_eq_spec [of gen "message_type d" "message d"]
  by (simp add: example_route_kept [OF assms] bootstrap_events listener_effects_def emit_def
                getClient_def new_WasapiEvents_def)

theorem example_prints_event_witness:
  "fst (example_route id ((\<lambda>_ _. Inr None :: unit + contact option) (getClient (fst (snd (bootstrap (\<lambda>_. None)))))) (sample_payload ''in'' ''521555@c.us'' (Some ''text''))) = Reply 200 Json_Success \<and>
   listener_effects (fst (snd (bootstrap (\<lambda>_. None))))
     (snd (snd (example_route id ((\<lambda>_ _. Inr None :: unit + contact option) (getClient (fst (snd (bootstrap (\<lambda>_. None)))))) (sample_payload ''in'' ''521555@c.us'' (Some ''text''))))) =
   [Log (Log_Info (mailbox_emoji @ '' Mensaje adaptado recibido:'')),
    Log (Log_Info (''Nombre Cliente: '' @
      js_show_opt (fst (getName ((\<lambda>_ _. Inr None :: unit + contact option) \<lparr>client_token = js_or_str ((\<lambda>_. None) ''API_KEY_WASAPI'') ''''\<rparr>) ''521555@c.us'')))),
    Log (Log_Info (''De: '' @ ''521555@c.us'')),
    Log (Log_Info (''Cuerpo: '' @ spec_body id (message_type (sample_data ''in'' ''521555@c.us'' (Some ''text'') (Some 999))) (message (sample_data ''in'' ''521555@c.us'' (Some ''text'') (Some 999))))),
    Log (Log_Info (''N'' @ [CHR 0xC3, CHR 0xBA] @ ''mero host: '' @ int_str 999))]"
  by (rule example_prints_event [where d = "sample_data ''in'' ''521555@c.us'' (Some ''text'') (Some 999)"]) (simp_all add: sample_payload_def sample_data_def)

end
