(* ===== verification/Build_Config.thy ===== *)
theory Build_Config
  imports Prelude
begin

text \<open>
  The build configuration \<open>src/rollup.config.js\<close> as data, and the part of it that
  decides something: the \<open>external\<close> list (lines 8--11, the keys of the package's
  \<open>dependencies\<close> and \<open>peerDependencies\<close>) and the \<open>onwarn\<close> filter (lines 24--27,
  which drops \<open>UNRESOLVED_IMPORT\<close> warnings and forwards every other one).

  \<open>package.json\<close> is not part of the sources: it is a parameter, each dependency
  object an association list in key order (\<open>None\<close> when the property is absent). The
  configuration has no module-resolution plugin, so rollup bundles only relative imports;
  a bare import listed in \<open>external\<close> is left external silently, any other bare import
  is reported as an \<open>UNRESOLVED_IMPORT\<close> warning and left external as well
  (\<open>resolve_import\<close>, rollup's documented behaviour). The imports are those the
  TypeScript plugin leaves in the compiled modules: imports used only as types are erased.
\<close>

section \<open>Definitions\<close>








record rollup_warning =
  w_code :: string
  w_source :: string

text \<open>\<open>onwarn\<close>: the warnings passed on to \<open>warn\<close>.\<close>

definition onwarn :: "rollup_warning \<Rightarrow> rollup_warning list" where
  "onwarn warning = (if w_code warning = ''UNRESOLVED_IMPORT'' then [] else [warning])"

datatype resolution = Bundled | External | Unresolved_External

definition is_relative :: "string \<Rightarrow> bool" where
  "is_relative s = (prefix ''./'' s \<or> prefix ''../'' s \<or> prefix ''/'' s)"

definition resolve_import :: "string list \<Rightarrow> string \<Rightarrow> resolution" where
  "resolve_import ext s =
     (if is_relative s then Bundled else if s \<in> set ext then External else Unresolved_External)"

definition import_warnings :: "string list \<Rightarrow> string \<Rightarrow> rollup_warning list" where
  "import_warnings ext s =
     (case resolve_import ext s of
        Unresolved_External \<Rightarrow> [\<lparr>w_code = ''UNRESOLVED_IMPORT'', w_source = s\<rparr>]
      | _ \<Rightarrow> [])"





section \<open>Lemmas\<close>



lemma onwarn_import_warnings [simp]: "concat (map onwarn (import_warnings ext s)) = []"
  by (simp add: import_warnings_def onwarn_def split: resolution.split)

subsection \<open>Properties of the build\<close>


end
