(* ===== verification/Session.thy ===== *)
theory Session
  imports Startup Webhook
begin

text \<open>
  The provider over its lifetime: the calls the library and the application make on a
  \<open>WasapiProvider\<close> (\<open>src/src/provider/wasapi.provider.ts\<close>) after construction,
  each run on the provider's state. \<open>on\<close> subscribes to the provider's emitter,
  \<open>initVendor\<close> (lines 46--53) starts the vendor, \<open>sendMessage\<close> and
  \<open>sendAttachment\<close> (lines 185--216) reach the SDK through \<open>this.vendor.getClient()\<close>,
  and a POST to \<open>/webhook/wasapi\<close> reaches \<open>ctrlInMsg\<close> (lines 109--112) only once
  the route is registered on \<open>this.server\<close>. Each operation reads \<open>this.vendor\<close>,
  which is \<open>undefined\<close> until \<open>initVendor\<close> has run.

  The Wasapi SDK is an interface: a record of its four operations, each receiving the
  client it is called on, so the model records which token authenticates each request.
  The reachable states are those of a provider built by a successful constructor call,
  followed by any sequence of calls (\<open>session_reach\<close>); \<open>session_run\<close> runs a list
  of calls in order and collects their outcomes and effects.
\<close>

section \<open>Definitions\<close>

text \<open>The SDK operations the provider and its vendor call, on a client.\<close>

record ('e, 'r, 's) wasapi_sdk =
  sdk_getWhatsappNumbers :: "wasapi_client \<Rightarrow> 'e + numbers_response"
  sdk_getById :: "wasapi_client \<Rightarrow> string \<Rightarrow> 'e + contact option"
  sdk_sendMessage :: "wasapi_client \<Rightarrow> send_message \<Rightarrow> 'e + 'r"
  sdk_sendAttachment :: "wasapi_client \<Rightarrow> send_attachment_params \<Rightarrow> 'e + 's"

text \<open>The calls made on a provider: subscribing a listener to a topic, the start-up,
  the two send methods, and an HTTP POST to the webhook path.\<close>

datatype 'p provider_call =
    Op_on string 'p
  | Op_initVendor
  | Op_sendMessage string string
  | Op_sendAttachment string string "string option" "string option"
  | Op_webhook wasapi_message

datatype ('h, 'r, 's) call_result =
    Subscribed
  | Vendor_Started "'h wasapi_events"
  | Message_Sent 'r
  | Attachment_Sent "'s option"
  | Webhook_Replied http_reply
  | Not_Routed

text \<open>The constructor's state: \<open>this.vendor\<close> unset, no route, an emitter without
  listeners.\<close>

definition provider_start :: "provider_cfg \<Rightarrow> ('h, 'p) provider_state" where
  "provider_start cfg = \<lparr>ps_cfg = cfg, ps_vendor = None, ps_routes = [], ps_bus = new_emitter\<rparr>"

text \<open>\<open>sendMessage\<close> and \<open>sendAttachment\<close> on the provider's state: the SDK call is made
  on the vendor's client; without a vendor, \<open>this.vendor.getClient()\<close> throws before any
  call.\<close>

definition sendMessage_on ::
  "('e, 'r, 's) wasapi_sdk \<Rightarrow> ('h, 'p) provider_state \<Rightarrow> string \<Rightarrow> string \<Rightarrow> ('e js_error + 'r) out" where
  "sendMessage_on sdk st userId msg =
     (case ps_vendor st of
        None \<Rightarrow> sendMessage (ps_cfg st) False (\<lambda>_. undefined) userId msg
      | Some v \<Rightarrow> sendMessage (ps_cfg st) True (sdk_sendMessage sdk (getClient v)) userId msg)"

definition sendAttachment_on ::
  "('e, 'r, 's) wasapi_sdk \<Rightarrow> ('h, 'p) provider_state \<Rightarrow> string \<Rightarrow> string \<Rightarrow> string option \<Rightarrow>
   string option \<Rightarrow> ('e js_error + 's option) out" where
  "sendAttachment_on sdk st userId filePath cap fname =
     (case ps_vendor st of
        None \<Rightarrow> sendAttachment (ps_cfg st) False (\<lambda>_. undefined) userId filePath cap fname
      | Some v \<Rightarrow> sendAttachment (ps_cfg st) True (sdk_sendAttachment sdk (getClient v)) userId filePath cap fname)"

text \<open>\<open>ctrlInMsg\<close> on the provider's state: \<open>this.vendor.eventInMsg(req.body)\<close> throws
  synchronously without a vendor; otherwise the handler's lookups go to the vendor's own
  client (\<open>this.wasapiClient\<close> of \<open>WasapiEvents\<close>), and the effects before and after the
  reply are those of the handler run to completion.\<close>

definition ctrlInMsg_on ::
  "(string \<Rightarrow> string) \<Rightarrow> ('e, 'r, 's) wasapi_sdk \<Rightarrow> ('h, 'p) provider_state \<Rightarrow> wasapi_message \<Rightarrow>
   ('e js_error + http_reply) out" where
  "ctrlInMsg_on gen sdk st req_body =
     (case ps_vendor st of
        None \<Rightarrow> (Inl (Type_Error ''Cannot read properties of undefined (reading 'eventInMsg')''), [])
      | Some v \<Rightarrow>
          (let (r, pre, post, _) = ctrlInMsg gen (sdk_getById sdk (ev_client v)) req_body
           in (Inr r, pre @ post)))"

text \<open>One call on the provider: its outcome, its effects and the provider's next state.
  The start-up's emissions throw as the provider's listeners do (\<open>thr\<close>, through
  \<open>Startup.bus_throws\<close>).\<close>

fun provider_exec ::
  "(string \<Rightarrow> string) \<Rightarrow> ('e, 'r, 's) wasapi_sdk \<Rightarrow> ('p \<Rightarrow> string \<Rightarrow> event_payload \<Rightarrow> bool) \<Rightarrow>
   'p provider_call \<Rightarrow> ('h, 'p) provider_state \<Rightarrow>
   ('e js_error + ('h, 'r, 's) call_result) \<times> effect list \<times> ('h, 'p) provider_state" where
  "provider_exec gen sdk thr (Op_on t h) st = (Inr Subscribed, [], st\<lparr>ps_bus := on t h (ps_bus st)\<rparr>)"
| "provider_exec gen sdk thr Op_initVendor st =
     (let (r, eff, st') = initVendor (sdk_getWhatsappNumbers sdk) (bus_throws st thr) st
      in (map_sum id Vendor_Started r, eff, st'))"
| "provider_exec gen sdk thr (Op_sendMessage userId msg) st =
     (let (r, eff) = sendMessage_on sdk st userId msg in (map_sum id Message_Sent r, eff, st))"
| "provider_exec gen sdk thr (Op_sendAttachment userId filePath cap fname) st =
     (let (r, eff) = sendAttachment_on sdk st userId filePath cap fname
      in (map_sum id Attachment_Sent r, eff, st))"
| "provider_exec gen sdk thr (Op_webhook req_body) st =
     (if webhook_route \<in> set (ps_routes st)
      then (let (r, eff) = ctrlInMsg_on gen sdk st req_body in (map_sum id Webhook_Replied r, eff, st))
      else (Inr Not_Routed, [], st))"

text \<open>A sequence of calls, in order.\<close>

fun session_run ::
  "(string \<Rightarrow> string) \<Rightarrow> ('e, 'r, 's) wasapi_sdk \<Rightarrow> ('p \<Rightarrow> string \<Rightarrow> event_payload \<Rightarrow> bool) \<Rightarrow>
   'p provider_call list \<Rightarrow> ('h, 'p) provider_state \<Rightarrow>
   ('e js_error + ('h, 'r, 's) call_result) list \<times> effect list \<times> ('h, 'p) provider_state" where
  "session_run gen sdk thr [] st = ([], [], st)"
| "session_run gen sdk thr (c # cs) st =
     (let (r, eff, st1) = provider_exec gen sdk thr c st;
          (rs, effs, st2) = session_run gen sdk thr cs st1
      in (r # rs, eff @ effs, st2))"

text \<open>The states a provider can be in: built by a successful constructor call, then
  changed by any call.\<close>

inductive session_reach ::
  "(string \<Rightarrow> string) \<Rightarrow> ('e, 'r, 's) wasapi_sdk \<Rightarrow> ('p \<Rightarrow> string \<Rightarrow> event_payload \<Rightarrow> bool) \<Rightarrow>
   ('h, 'p) provider_state \<Rightarrow> bool" for gen sdk thr where
  start: "(new_WasapiProvider args :: 'e js_error + provider_cfg) = Inr cfg \<Longrightarrow>
          session_reach gen sdk thr (provider_start cfg)"
| call: "session_reach gen sdk thr st \<Longrightarrow> session_reach gen sdk thr (snd (snd (provider_exec gen sdk thr c st)))"

text \<open>The invariant of the provider's state: the credentials are non-empty; the only
  route is the webhook route, registered exactly when a vendor is set; and the vendor holds
  the configured token and a client built with it.\<close>

definition session_inv :: "('h, 'p) provider_state \<Rightarrow> bool" where
  "session_inv st =
     (cfg_token (ps_cfg st) \<noteq> [] \<and> cfg_deviceId (ps_cfg st) \<noteq> [] \<and>
      set (ps_routes st) \<subseteq> {webhook_route} \<and>
      (case ps_vendor st of
         None \<Rightarrow> ps_routes st = []
       | Some v \<Rightarrow> ev_token v = cfg_token (ps_cfg st) \<and>
                  getClient v = \<lparr>client_token = cfg_token (ps_cfg st)\<rparr> \<and>
                  webhook_route \<in> set (ps_routes st)))"

text \<open>The client a started vendor holds: one built with the configured token.\<close>

definition configured_client :: "('h, 'p) provider_state \<Rightarrow> wasapi_client" where
  "configured_client st = \<lparr>client_token = cfg_token (ps_cfg st)\<rparr>"

subsection \<open>Fixtures\<close>

definition sample_sdk :: "(unit, unit, unit) wasapi_sdk" where
  "sample_sdk =
     \<lparr>sdk_getWhatsappNumbers = (\<lambda>_. Inr \<lparr>numbers = Some [sample_number]\<rparr>),
      sdk_getById = (\<lambda>_ _. Inr None), sdk_sendMessage = (\<lambda>_ _. Inr ()),
      sdk_sendAttachment = (\<lambda>_ _. Inl ())\<rparr>"

text \<open>The sample provider after its start-up.\<close>

definition sample_started :: "(unit, unit) provider_state" where
  "sample_started =
     snd (snd (provider_exec id sample_sdk (\<lambda>_ _ _. False) Op_initVendor (provider_start sample_cfg)))"

section \<open>Lemmas\<close>

lemma provider_exec_state:
  "snd (snd (provider_exec gen sdk thr c st)) =
     (case c of
        Op_on t h \<Rightarrow> st\<lparr>ps_bus := on t h (ps_bus st)\<rparr>
      | Op_initVendor \<Rightarrow>
          st\<lparr>ps_vendor := Some (new_WasapiEvents (cfg_token (ps_cfg st))),
             ps_routes := ps_routes st @ [webhook_route]\<rparr>
      | _ \<Rightarrow> st)"
  by (cases c) (simp_all add: initVendor_eq split_def Let_def)

lemma session_inv_start:
  "(new_WasapiProvider args :: 'e js_error + provider_cfg) = Inr cfg \<Longrightarrow> session_inv (provider_start cfg)"
  by (simp add: new_WasapiProvider_Inr session_inv_def provider_start_def)

lemma session_inv_exec:
  "session_inv st \<Longrightarrow> session_inv (snd (snd (provider_exec gen sdk thr c st)))"
  unfolding provider_exec_state
  by (cases c) (auto simp: session_inv_def new_WasapiEvents_def getClient_def split: option.splits)

lemma session_inv_vendor:
  assumes "session_inv st"
  shows "ps_vendor st = None \<Longrightarrow> webhook_route \<notin> set (ps_routes st)"
    and "ps_vendor st = Some v \<Longrightarrow> webhook_route \<in> set (ps_routes st) \<and> ev_client v = configured_client st"
  using assms by (auto simp: session_inv_def configured_client_def getClient_def)

lemma split_at_await_fst_snd: "fst (split_at_await es) @ snd (split_at_await es) = es"
  using split_at_await_append [of es "fst (split_at_await es)" "snd (split_at_await es)"] by simp

lemma ctrlInMsg_on_Some:
  "ps_vendor st = Some v \<Longrightarrow>
   ctrlInMsg_on gen sdk st p = (Inr (Reply 200 (Text ''ok'')), snd (eventInMsg gen (sdk_getById sdk (ev_client v)) p))"
  by (simp add: ctrlInMsg_on_def ctrlInMsg_def split_beta split_at_await_fst_snd)

lemma eventInMsg_calls: "length (calls (snd (eventInMsg gen getById p))) \<le> 1"
  by (auto simp: eventInMsg_def getName_def Let_def split_beta split: option.splits sum.splits)

lemma sendMessage_calls:
  "calls (snd (sendMessage cfg hv send userId msg)) = (if hv then [Send_Msg (message_payload cfg userId msg)] else [])"
  by (simp add: sendMessage_def Let_def split: sum.split)

lemma sendAttachment_calls:
  "calls (snd (sendAttachment cfg hv send userId filePath cap fname)) =
     (if hv then [Send_Attachment (attachment_payload cfg userId filePath cap fname)] else [])"
  by (simp add: sendAttachment_def Let_def split: sum.split)

lemma provider_exec_calls: "length (calls (fst (snd (provider_exec gen sdk thr c st)))) \<le> 1"
proof (cases c)
  case Op_initVendor
  then show ?thesis
    using checkStatus_no_retry [of True "sdk_getWhatsappNumbers sdk (configured_client st)"]
    by (simp add: initVendor_eq split_def Let_def configured_client_def)
next
  case (Op_sendMessage userId msg)
  then show ?thesis
    by (simp add: sendMessage_on_def sendMessage_calls split_beta split: option.split)
next
  case (Op_sendAttachment userId filePath cap fname)
  then show ?thesis
    by (simp add: sendAttachment_on_def sendAttachment_calls split_beta split: option.split)
next
  case (Op_webhook p)
  show ?thesis
  proof (cases "ps_vendor st")
    case None
    then show ?thesis using Op_webhook by (simp add: ctrlInMsg_on_def)
  next
    case (Some v)
    then show ?thesis
      using Op_webhook eventInMsg_calls [of gen "sdk_getById sdk (ev_client v)" p] by (simp add: ctrlInMsg_on_Some)
  qed
qed simp

lemma sample_started_eq:
  "sample_started =
     \<lparr>ps_cfg = sample_cfg, ps_vendor = Some (new_WasapiEvents ''tok-123''), ps_routes = [webhook_route],
      ps_bus = new_emitter\<rparr>"
  unfolding sample_started_def provider_exec_state by (simp add: provider_start_def sample_cfg_def)

lemma sample_started_reach: "session_reach id sample_sdk (\<lambda>_ _ _. False) sample_started"
proof -
  have ok: "(new_WasapiProvider (Some sample_args) :: unit js_error + provider_cfg) = Inr sample_cfg"
    by (simp add: new_WasapiProvider_def merge_args_def default_vendor_args_def sample_args_def sample_cfg_def)
  show ?thesis
    unfolding sample_started_def by (rule session_reach.call, rule session_reach.start [OF ok])
qed

subsection \<open>Properties of the provider over its lifetime\<close>

text \<open>C7. In every state a provider can reach after a successful construction, whatever
  calls were made on it and in whatever order, its token and device id are non-empty, its
  only route is the webhook route, registered exactly when a vendor is set, and the vendor
  holds the configured token and a client built with it.\<close>

theorem session_invariant: "session_reach gen sdk thr st \<Longrightarrow> session_inv st"
proof (induction rule: session_reach.induct)
  case (start args cfg)
  then show ?case by (simp add: new_WasapiProvider_Inr session_inv_def provider_start_def)
next
  case (call st c)
  from call.IH show ?case by (rule session_inv_exec)
qed

theorem session_invariant_witness: "session_inv sample_started"
  by (rule session_invariant [OF sample_started_reach])

text \<open>C12. No operation retries: a sequence of calls on a provider makes at most one SDK
  request per call, whatever the SDK answers and whatever the listeners do.\<close>

theorem session_one_request_per_call:
  "length (calls (fst (snd (session_run gen sdk thr cs st)))) \<le> length cs"
proof (induction cs arbitrary: st)
  case (Cons c cs)
  have "length (calls (fst (snd (provider_exec gen sdk thr c st)))) \<le> 1"
    by (rule provider_exec_calls)
  moreover have "length (calls (fst (snd (session_run gen sdk thr cs (snd (snd (provider_exec gen sdk thr c st))))))) \<le> length cs"
    by (rule Cons.IH)
  ultimately show ?case by (simp add: split_beta)
qed simp

text \<open>C17. The operations that read \<open>this.vendor\<close> never find it unset where that
  would crash the server: in every reachable state, a webhook POST is not routed to the
  provider before the start-up, and afterwards is answered \<open>200 ok\<close> with the whole run
  of \<open>eventInMsg\<close>, its lookups made on a client built with the configured token;
  \<open>sendMessage\<close> sends on that same client, and before the start-up rejects with the
  \<open>TypeError\<close> of \<open>this.vendor.getClient()\<close>.\<close>

theorem session_vendor_reads:
  assumes "session_reach gen sdk thr st"
  shows "provider_exec gen sdk thr (Op_webhook p) st =
           (case ps_vendor st of
              None \<Rightarrow> (Inr Not_Routed, [], st)
            | Some _ \<Rightarrow> (Inr (Webhook_Replied (Reply 200 (Text ''ok''))),
                         snd (eventInMsg gen (sdk_getById sdk (configured_client st)) p), st)) \<and>
         sendMessage_on sdk st userId msg =
           sendMessage (ps_cfg st) (ps_vendor st \<noteq> None) (sdk_sendMessage sdk (configured_client st)) userId msg"
proof -
  have inv: "session_inv st"
    using assms by (induction rule: session_reach.induct) (auto intro: session_inv_start session_inv_exec)
  show ?thesis
  proof (cases "ps_vendor st")
    case None
    then show ?thesis
      using session_inv_vendor(1) [OF inv] by (simp add: sendMessage_on_def sendMessage_def)
  next
    case (Some v)
    then show ?thesis
      using session_inv_vendor(2) [OF inv Some] by (simp add: ctrlInMsg_on_Some sendMessage_on_def getClient_def)
  qed
qed

theorem session_vendor_reads_witness:
  "fst (provider_exec id sample_sdk (\<lambda>_ _ _. False) (Op_webhook (sample_payload ''in'' ''521555@c.us'' (Some ''text'')))
          sample_started) = Inr (Webhook_Replied (Reply 200 (Text ''ok''))) \<and>
   calls (fst (snd (provider_exec id sample_sdk (\<lambda>_ _ _. False)
          (Op_webhook (sample_payload ''in'' ''521555@c.us'' (Some ''text''))) sample_started))) =
     [Get_Contact ''521555@c.us''] \<and>
   fst (sendMessage_on sample_sdk sample_started ''521555@c.us'' ''hola'') = Inr ()"
proof -
  note eq = session_vendor_reads [OF sample_started_reach, of "sample_payload ''in'' ''521555@c.us'' (Some ''text'')"
                                   "''521555@c.us''" "''hola''"]
  have v: "ps_vendor sample_started = Some (new_WasapiEvents ''tok-123'')"
    by (simp add: sample_started_eq)
  show ?thesis
    using eq v by (simp add: sample_started_eq sample_sdk_def sendMessage_def eventInMsg_def getName_def
                             sample_payload_def sample_data_def in_msg_filter_def Let_def)
qed

end
