(* ===== verification/Spec2Isabelle.thy ===== *)
theory Spec2Isabelle
  imports Normalizer Device_Status Provider Attachment Bridge Webhook Deliveries Event_Loop Startup Example_App Build_Config Session
begin

text \<open>
  \<^bold>\<open>A verification development of wasapi-provider.\<close>

  The repository is a provider for the \<open>@builderbot/bot\<close> framework that adapts the
  Wasapi WhatsApp API. Its parts, all in TypeScript under \<open>src/\<close>:
  \<^item> \<open>WasapiEvents\<close> (\<open>src/src/provider/wasapi.events.ts\<close>), the inbound event
    normalizer: \<open>eventInMsg\<close> filters a webhook payload, resolves the contact name with
    \<open>getName\<close> through the Wasapi SDK, classifies the body by message type and emits a
    \<open>message\<close> event on its own emitter;
  \<^item> \<open>WasapiProvider\<close> (\<open>src/src/provider/wasapi.provider.ts\<close>): the constructor
    validating the configuration, \<open>initVendor\<close> (creates the vendor, registers the
    webhook route and awaits the device check), \<open>checkStatus\<close> (device status at start-up, which
    emits \<open>ready\<close> or \<open>auth_failure\<close> on the provider itself), \<open>busEvents\<close> (the bridge that
    republishes the vendor's events on the provider), \<open>ctrlInMsg\<close> (the webhook route
    that hands a payload to \<open>eventInMsg\<close>), \<open>sendMessage\<close> and \<open>sendAttachment\<close>
    (outbound), \<open>downloadFile\<close>, \<open>fileTypeFromFile\<close> and \<open>saveFile\<close> (attachments);
  \<^item> an example HTTP server (\<open>src/examples/events/wasapiWebhook.ts/\<close>): \<open>index.ts\<close>
    reads the environment and starts express, \<open>registerWasapiWebhook\<close> registers a
    route that calls \<open>eventInMsg\<close> and answers 200 or 500, and a listener that prints
    each adapted message;
  \<^item> the build configuration (\<open>src/rollup.config.js\<close>).
  An inbound message thus flows: HTTP route \<open>\<rightarrow>\<close> \<open>eventInMsg\<close> \<open>\<rightarrow>\<close> emission on the
  vendor \<open>\<rightarrow>\<close> relay of \<open>busEvents\<close> \<open>\<rightarrow>\<close> emission on the provider \<open>\<rightarrow>\<close> the bot's
  subscribers.

  \<^bold>\<open>Layout.\<close>
  \<^item> \<open>Prelude\<close>: proof collections and the JavaScript runtime pieces the code leans on
    (truthiness, \<open>||\<close>, \<open>String.prototype.includes\<close> proved equal to the library's
    contiguous-sublist relation, \<open>Number.prototype.toString\<close> on integers with a
    parser that inverts it, so that printing is injective).
  \<^item> \<open>Wasapi_Types\<close>: \<open>WasapiMessage\<close> as records (fields the code reads are options,
    since JSON is not checked against the type), the normalized event, the SDK's types,
    JavaScript errors (\<open>'e js_error\<close>) and the effects an operation performs, in order
    (\<open>effect\<close>: an SDK/HTTP/file call, a console line, an emitted event). An operation
    returns its outcome with its effect list (\<open>'a out\<close>).
  \<^item> \<open>Event_Bus\<close>: \<open>EventEmitterClass\<close> of \<open>@builderbot/bot\<close>, a library, modelled
    from spec \<S>4.5: per-topic handler lists, \<open>on\<close>, \<open>emit\<close> (also with listeners that
    throw: \<open>emit_throwing\<close> stops at the first one), runs of registrations and
    publications (\<open>bus_run\<close>).
  \<^item> \<open>Normalizer\<close>: \<open>getName\<close>, the guard of line 55 (\<open>in_msg_filter\<close>), the body
    overrides of lines 66--69 (\<open>classify_body\<close>) and \<open>eventInMsg\<close>; the
    specification's placeholder table (\<open>spec_body\<close>) is the abstract specification the
    overrides refine.
  \<^item> \<open>Device_Status\<close>: \<open>checkStatus\<close> (lines 144--176) with its catch block
    (\<open>check_catch\<close>) and device lookup (\<open>find_device\<close>); the spec's one-shot lifecycle
    \<open>pending \<rightarrow> ready | auth_failure\<close> as an inductive step relation and its traces.
  \<^item> \<open>Provider\<close>: the constructor (\<open>new_WasapiProvider\<close>, with the object spread of
    \<open>globalVendorArgs\<close> and the arguments written out property by property),
    \<open>sendMessage\<close> and \<open>sendAttachment\<close>.
  \<^item> \<open>Attachment\<close>: \<open>fileTypeFromFile\<close>, \<open>downloadFile\<close> and \<open>saveFile\<close> over an
    explicit file store (a map from paths to byte lists, \<open>8 word list\<close>).
  \<^item> \<open>Bridge\<close>: the four relays of \<open>busEvents\<close> registered on the vendor's emitter
    (\<open>listenOnEvents\<close>), and the provider-subscriber invocations an emission on the
    vendor causes (\<open>vendor_emit\<close>).
  \<^item> \<open>Webhook\<close>: \<open>ctrlInMsg\<close> and the example's route; the split of a handler run at
    its first \<open>await\<close> into the effects before and after the reply.
  \<^item> \<open>Deliveries\<close>: concurrent webhook deliveries (spec \<S>5) as an inductive scheduler
    \<open>delivery_step\<close>: a delivery arrives through \<open>ctrlInMsg\<close> (synchronous part and
    reply), and its continuation is later resumed one synchronous segment at a time,
    interleaved with the others in any order.
  \<^item> \<open>Event_Loop\<close>: the event loop run to completion (\<open>drain\<close>), a \<open>function\<close>
    with a termination proof by the measure \<open>work\<close>.
  \<^item> \<open>Startup\<close>: the vendor \<open>WasapiEvents\<close> (constructor, \<open>getClient\<close>) and
    \<open>initVendor\<close> as a transition of the provider's state (vendor, routes, emitter).
  \<^item> \<open>Example_App\<close>: \<open>index.ts\<close> (\<open>bootstrap\<close>), \<open>registerWasapiWebhook\<close> and
    its listener, over a record of the express application.
  \<^item> \<open>Build_Config\<close>: \<open>rollup.config.js\<close> as data, its \<open>external\<close> list and
    \<open>onwarn\<close> filter, and rollup's resolution of imports without a resolve plugin.
  \<^item> \<open>Session\<close>: the provider over its lifetime. The SDK is an interface, a record of
    its four operations, each given the client it is called on (\<open>wasapi_sdk\<close>); the
    calls made on a provider are a datatype (\<open>provider_call\<close>: \<open>on\<close>,
    \<open>initVendor\<close>, \<open>sendMessage\<close>, \<open>sendAttachment\<close>, a POST to the webhook path);
    \<open>provider_exec\<close> runs one on the provider's state, reading \<open>this.vendor\<close> the
    way the code does (\<open>sendMessage_on\<close>, \<open>sendAttachment_on\<close>, \<open>ctrlInMsg_on\<close>)
    and routing a POST only when the route is registered; \<open>session_run\<close> runs a list of
    calls, and \<open>session_reach\<close> is the inductive set of states reachable from a
    successful constructor call.
  \<^item> This theory: the end-to-end property that spans the webhook, the normalizer and the
    bridge.

  \<^bold>\<open>How the model corresponds to the code.\<close> The SDK's calls
  (\<open>contacts.getById\<close>, \<open>whatsapp.getWhatsappNumbers\<close>, \<open>whatsapp.sendMessage\<close>,
  \<open>whatsapp.sendAttachment\<close>), axios, \<open>mime.extension\<close>, \<open>fs.writeFile\<close>,
  \<open>Date.now\<close>, \<open>path.join\<close> and \<open>utils.generateRefProvider\<close> are function
  parameters (the last one \<open>gen\<close>), so every theorem holds whatever they return; a
  rejected promise is \<open>Inl\<close>. Whether an event listener throws is a parameter too. An
  \<open>async\<close> function is modelled by its settled outcome (\<open>Inr\<close> resolved, \<open>Inl\<close>
  rejected) and the effects it performs until then, in program order; an \<open>await\<close> is
  sequencing, and an un-awaited call (\<open>call_async\<close>) never throws synchronously.
  No loop of the code is unbounded (\<open>includes\<close>, \<open>find\<close>, decimal printing and the
  emitter's listener lists recurse structurally), so no fuel is needed and every
  definition is total and executable.

  \<^bold>\<open>What is proved.\<close>
  \<^item> Normalizer (C1--C6): the accepted path against the specification's table, the
    discarding of outbound and group payloads with no effect, the body table, the
    swallowed contact lookup failure, that a rejected run never emitted an event, and the
    order of effects when \<open>from_id\<close> is missing (the scenario of spec \<S>8 is an
    instance, kept as a lemma).
  \<^item> Provider lifetime (C7, C12, C17, in \<open>Session\<close>): the invariant of every reachable
    provider state (rule induction on \<open>session_reach\<close>, one preservation lemma per
    call); no retry anywhere, as at most one SDK request per call of any sequence; and the
    reads of \<open>this.vendor\<close>: a webhook is never routed to the provider before the
    start-up and afterwards runs \<open>eventInMsg\<close> on the configured client, while
    \<open>sendMessage\<close> before the start-up rejects with a \<open>TypeError\<close>.
  \<^item> Device status (C8--C11, C13): the found, not-found and transport-error branches,
    the one-shot lifecycle (by rule inversion on the step relation), and a throwing
    \<open>ready\<close> listener turning into \<open>auth_failure\<close>.
  \<^item> Configuration and outbound (C14--C16): both credentials required, the token
    checked first, \<open>sendMessage\<close> propagating errors (\<open>sendAttachment\<close> swallowing
    them is a lemma of \<open>Provider\<close>).
  \<^item> Attachments (C18--C22): the request \<open>downloadFile\<close> makes, an unknown content
    type, that \<open>saveFile\<close> writes exactly one file and only with an extension (a frame
    property on the store), and the \<open>ERROR\<close> sentinel.
  \<^item> Bridge (C23): what a vendor event of each topic delivers to the provider's
    subscribers (the payload, the \<open>ready\<close> flag, or nothing).
  \<^item> Shuffle (C24): at quiescence the interleaved observations are, as a multiset, the
    sum of the solo runs (\<open>HOL-Library.Multiset\<close>).
  \<^item> Throwing listeners (C25): composing the emitter's throwing semantics with
    \<open>initVendor\<close>: a throwing \<open>ready\<close> listener cuts off the later ones and turns a
    found device into \<open>auth_failure\<close> for every listener of that topic.
  \<^item> Webhook (C26--C27): the reply precedes every emission, and the example route can
    never answer 500.
  \<^item> End to end (C28).
  \<^item> Concurrent deliveries (C29--C31): isolation of each delivery in every reachable
    interleaving (rule induction on \<open>delivery_step\<close> with the invariant
    \<open>sched_inv\<close>), completion of every delivery whose lookup settles even when others
    never do (by well-founded induction on the work in flight outside the stuck set), and
    a schedule in which the later delivery emits first.
  \<^item> Start-up (C32--C33): a successful \<open>initVendor\<close> and a failed one, which still
    leaves the webhook route registered.
  \<^item> Example server (C34--C35): it starts with no key and no port configured, and
    prints each adapted message after answering.
  \<^item> Build (C36): no import warning ever reaches the user; only the relative import
    is bundled.
  \<^item> Kinds that span the normalizer and the device check: the device lookup by
    printed id equals the lookup by number (C37, equivalence), every emitted event has the
    type of spec \<S>3 except a possibly undefined name (C38), the sender id survives
    printing (C39, round trip through a parser), and the event loop terminates (C40).

  \<^bold>\<open>Coverage.\<close> Every line of every source file is modelled, up to comments, import
  lines, class braces and the reading of \<open>package.json\<close>. What remains open is the
  library's side: the order in which \<open>@builderbot/bot\<close> calls \<open>initVendor\<close>,
  \<open>listenOnEvents\<close> and the server hooks is not in the sources, so \<open>Session\<close> allows
  every order of calls and \<open>Bridge\<close> takes the wiring as given.

  \<^bold>\<open>Not modelled.\<close> The mechanics of the HTTP frameworks (polka, express: request
  parsing, routing by path) beyond the list of registered routes, \<open>dotenv\<close> (the
  environment is a parameter), console output beyond the lines an operation logs, the
  SDK's and axios's own behaviour (they are parameters), \<open>path.join\<close> normalization,
  and rollup's bundling beyond deciding which imports stay external; \<open>package.json\<close>
  is not among the sources and is a parameter. The empty hooks
  \<open>beforeHttpServerInit\<close> and \<open>afterHttpServerInit\<close> do nothing.
\<close>

section \<open>Properties spanning components\<close>

text \<open>C28. End to end: an inbound message from a chat that is not a group, posted to the
  provider's webhook route, is answered \<open>200 ok\<close> once the contact lookup has been
  sent and before the event exists; after the lookup settles, the normalized event (from
  the chat, with the specification's body) is emitted, and through the wired bridge it
  reaches every provider subscriber of \<open>message\<close> exactly once, in registration order,
  after the vendor's own listeners.\<close>

theorem webhook_reaches_subscribers:
  assumes "data p = Some d" "type d = Some ''in''" "wa_id d = Some w"
    and "\<not> str_includes w ''g.us''" and "from_id d = Some fid"
  shows "\<exists>ev post.
    ctrlInMsg gen getById p = (Reply 200 (Text ''ok''), [Call (Get_Contact w)], post, False) \<and>
    from' ev = w \<and> body ev = spec_body gen (message_type d) (message d) \<and>
    concat (map (\<lambda>(t, pl). vendor_emit (listenOnEvents V) P t pl) (emits post)) =
      vendor_emit V P ''message'' (Msg_Event ev) @
      map (\<lambda>n. (n, ''message'', Msg_Event ev)) (subscribers_of P ''message'')"
proof -
  let ?ev = "\<lparr>body = classify_body gen (message_type d) (js_or_str (message d) ''''),
              from' = w, name = fst (getName getById w),
              host = \<lparr>phone = int_str fid\<rparr>, raw = p\<rparr>"
  let ?post = "tl (snd (getName getById w)) @ [Emit ''message'' (Msg_Event ?ev)]"
  have route: "ctrlInMsg gen getById p = (Reply 200 (Text ''ok''), [Call (Get_Contact w)], ?post, False)"
    by (rule ctrlInMsg_kept [OF assms])
  have "emits ?post = [(''message'', Msg_Event ?ev)]"
    by simp
  then have "concat (map (\<lambda>(t, pl). vendor_emit (listenOnEvents V) P t pl) (emits ?post)) =
      vendor_emit V P ''message'' (Msg_Event ?ev) @
      map (\<lambda>n. (n, ''message'', Msg_Event ?ev)) (subscribers_of P ''message'')"
    by (simp add: vendor_emit_listenOnEvents busEvents_def)
  moreover have "body ?ev = spec_body gen (message_type d) (message d)"
    using classify_body_eq_spec by (simp only: normalized_event.select_convs)
  moreover have "from' ?ev = w" by simp
  ultimately show ?thesis using route by blast
qed

theorem webhook_reaches_subscribers_witness:
  "\<exists>ev post.
    ctrlInMsg id (\<lambda>_. Inr None :: unit + contact option) (sample_payload ''in'' ''521555@c.us'' (Some ''text'')) =
      (Reply 200 (Text ''ok''), [Call (Get_Contact ''521555@c.us'')], post, False) \<and>
    from' ev = ''521555@c.us'' \<and>
    body ev = spec_body id (message_type (sample_data ''in'' ''521555@c.us'' (Some ''text'') (Some 999)))
                           (message (sample_data ''in'' ''521555@c.us'' (Some ''text'') (Some 999))) \<and>
    concat (map (\<lambda>(t, pl). vendor_emit (listenOnEvents new_emitter) (on ''message'' (Subscriber 1) new_emitter) t pl) (emits post)) =
      vendor_emit new_emitter (on ''message'' (Subscriber 1) new_emitter) ''message'' (Msg_Event ev) @
      map (\<lambda>n. (n, ''message'', Msg_Event ev)) (subscribers_of (on ''message'' (Subscriber 1) new_emitter) ''message'')"
  by (rule webhook_reaches_subscribers [where d = "sample_data ''in'' ''521555@c.us'' (Some ''text'') (Some 999)" and fid = 999])
     (simp_all add: sample_payload_def sample_data_def)

end
